theory Spec2Isabelle
  imports Main "HOL-Library.Monad_Syntax"
begin

section \<open>The tables of the PostgreSQL schema\<close>

text \<open>
  The server talks to PostgreSQL through \<^verbatim>\<open>pg\<close> (placeholders \<^verbatim>\<open>$1\<close>, \<^verbatim>\<open>RETURNING\<close>), so
  the tables, constraints and triggers are those of the PostgreSQL schema file. A row is a
  record with the columns the handlers and triggers read or write. Left out are the
  timestamps \<^verbatim>\<open>created_at\<close>, \<^verbatim>\<open>updated_at\<close> and \<^verbatim>\<open>last_deployed\<close> (and with them the
  trigger \<^verbatim>\<open>update_updated_at_column\<close>), the Heroku columns of \<^verbatim>\<open>bots\<close>, and the keys of
  \<^verbatim>\<open>coin_transactions\<close> and \<^verbatim>\<open>referrals\<close>, which nothing reads. The tables
  \<^verbatim>\<open>email_verification_tokens\<close>, \<^verbatim>\<open>deployment_logs\<close> and \<^verbatim>\<open>user_sessions\<close> are never
  used by the server. A UUID is a natural number, a \<^verbatim>\<open>DATE\<close> is its ISO text
  \<^verbatim>\<open>YYYY-MM-DD\<close>, a table is the list of its rows in insertion order.
\<close>

type_synonym uuid = nat
type_synonym date = string

record users_row =
  u_id :: uuid
  u_username :: string
  u_email :: string
  u_password :: string
  u_referral_code :: string
  u_referrer_id :: "uuid option"
  u_verification_token :: "string option"
  u_is_verified :: bool
  u_is_admin :: bool
  u_coins :: int
  u_last_coin_claim :: "date option"

record bots_row =
  b_id :: uuid
  b_user_id :: uuid
  b_name :: string
  b_repo_url :: string
  b_env_vars :: "string option"
  b_description :: "string option"
  b_status :: string

record community_messages_row =
  m_id :: uuid
  m_user_id :: uuid
  m_message :: string

record coin_transactions_row =
  ct_user_id :: uuid
  ct_amount :: int
  ct_type :: string
  ct_description :: "string option"
  ct_related_bot_id :: "uuid option"

record referrals_row =
  r_referrer_id :: uuid
  r_referred_id :: uuid
  r_bonus_given :: bool

record db =
  users :: "users_row list"
  bots :: "bots_row list"
  community_messages :: "community_messages_row list"
  coin_transactions :: "coin_transactions_row list"
  referrals :: "referrals_row list"

definition empty_db :: db where
  "empty_db = \<lparr>users = [], bots = [], community_messages = [], coin_transactions = [],
     referrals = []\<rparr>"

subsection \<open>Column types and CHECK constraints\<close>

definition int4 :: "int \<Rightarrow> bool" where
  \<comment> \<open>\<^verbatim>\<open>INTEGER\<close>: a value out of range raises, it does not wrap.\<close>
  "int4 n = (- 2147483648 \<le> n \<and> n \<le> 2147483647)"

definition varchar :: "nat \<Rightarrow> string \<Rightarrow> string option" where
  \<comment> \<open>\<^verbatim>\<open>VARCHAR(n)\<close>, the value that is stored: a longer value raises, unless all of
      its excess is spaces, and then it is cut off at \<open>n\<close> characters.\<close>
  "varchar n s =
     (if length s \<le> n then Some s
      else if list_all (\<lambda>c. c = CHR '' '') (drop n s) then Some (take n s)
      else None)"

definition is_lower :: "char \<Rightarrow> bool" where
  "is_lower c = (97 \<le> (of_char c :: nat) \<and> (of_char c :: nat) \<le> 122)"

definition is_upper :: "char \<Rightarrow> bool" where
  "is_upper c = (65 \<le> (of_char c :: nat) \<and> (of_char c :: nat) \<le> 90)"

definition is_digit :: "char \<Rightarrow> bool" where
  "is_digit c = (48 \<le> (of_char c :: nat) \<and> (of_char c :: nat) \<le> 57)"

definition is_alpha :: "char \<Rightarrow> bool" where
  "is_alpha c = (is_lower c \<or> is_upper c)"

definition is_alnum :: "char \<Rightarrow> bool" where
  "is_alnum c = (is_alpha c \<or> is_digit c)"

definition valid_username :: "string \<Rightarrow> bool" where
  \<comment> \<open>\<^verbatim>\<open>username ~ '^[a-zA-Z0-9_]+$'\<close>\<close>
  "valid_username s = (s \<noteq> [] \<and> list_all (\<lambda>c. is_alnum c \<or> c = CHR ''_'') s)"

definition email_local_char :: "char \<Rightarrow> bool" where
  \<comment> \<open>\<^verbatim>\<open>[A-Za-z0-9._%+-]\<close>\<close>
  "email_local_char c = (is_alnum c \<or> c \<in> set ''._%+-'')"

definition email_domain_char :: "char \<Rightarrow> bool" where
  \<comment> \<open>\<^verbatim>\<open>[A-Za-z0-9.-]\<close>\<close>
  "email_domain_char c = (is_alnum c \<or> c \<in> set ''.-'')"

definition valid_email :: "string \<Rightarrow> bool" where
  \<comment> \<open>\<^verbatim>\<open>email ~ '^[A-Za-z0-9._%+-]+@[A-Za-z0-9.-]+\.[A-Za-z]{2,}$'\<close>: the local part
      cannot hold an \<^verbatim>\<open>@\<close>, so it ends at the first one; the last group cannot hold a
      dot, so it starts after the last one.\<close>
  "valid_email s =
     (let local = takeWhile (\<lambda>c. c \<noteq> CHR ''@'') s;
          rest = dropWhile (\<lambda>c. c \<noteq> CHR ''@'') s;
          rdomain = rev (drop 1 rest);
          rtld = takeWhile (\<lambda>c. c \<noteq> CHR ''.'') rdomain;
          rhost = dropWhile (\<lambda>c. c \<noteq> CHR ''.'') rdomain
      in local \<noteq> [] \<and> list_all email_local_char local \<and> rest \<noteq> []
         \<and> 2 \<le> length rtld \<and> list_all is_alpha rtld
         \<and> 2 \<le> length rhost \<and> list_all email_domain_char rhost)"

definition valid_repo_url :: "string \<Rightarrow> bool" where
  \<comment> \<open>\<^verbatim>\<open>repo_url ~ '^https?://github\.com/'\<close>\<close>
  "valid_repo_url s =
     (take 18 s = ''http://github.com/'' \<or> take 19 s = ''https://github.com/'')"

definition bot_statuses :: "string list" where
  "bot_statuses = [''pending'', ''deploying'', ''deployed'', ''failed'', ''stopped'']"

definition coin_transaction_types :: "string list" where
  "coin_transaction_types =
     [''daily_claim'', ''referral_bonus'', ''bot_deployment'', ''admin_grant'', ''purchase'']"

definition users_checks :: "users_row \<Rightarrow> bool" where
  \<comment> \<open>What every new version of a \<^verbatim>\<open>users\<close> row must pass: the range of the
      \<^verbatim>\<open>INTEGER\<close> column and the three CHECK constraints of the table.\<close>
  "users_checks u =
     (int4 (u_coins u) \<and> 0 \<le> u_coins u \<and> valid_username (u_username u)
      \<and> valid_email (u_email u))"

definition users_varchars :: "users_row \<Rightarrow> users_row option" where
  \<comment> \<open>The row as its \<^verbatim>\<open>VARCHAR\<close> columns store it.\<close>
  "users_varchars u =
     do {
       name \<leftarrow> varchar 50 (u_username u);
       mail \<leftarrow> varchar 255 (u_email u);
       hash \<leftarrow> varchar 255 (u_password u);
       code \<leftarrow> varchar 20 (u_referral_code u);
       token \<leftarrow> (case u_verification_token u of
                  None \<Rightarrow> Some None
                | Some t \<Rightarrow> map_option Some (varchar 100 t));
       Some (u\<lparr>u_username := name, u_email := mail, u_password := hash,
               u_referral_code := code, u_verification_token := token\<rparr>)
     }"

section \<open>SQL statements and triggers\<close>

text \<open>
  Every \<^verbatim>\<open>pool.query\<close> is a statement of its own (the server opens no transaction): it
  either takes effect with everything its triggers do, or raises and changes nothing.
  \<open>None\<close> is the raised error; the handlers treat every database error alike.
\<close>

definition insert_coin_transaction :: "coin_transactions_row \<Rightarrow> db \<Rightarrow> db option" where
  "insert_coin_transaction t d =
     (case varchar 20 (ct_type t) of
        None \<Rightarrow> None
      | Some type \<Rightarrow>
          if int4 (ct_amount t) \<and> type \<in> set coin_transaction_types
             \<and> ct_user_id t \<in> set (map u_id (users d))
             \<and> (case ct_related_bot_id t of
                  None \<Rightarrow> True
                | Some b \<Rightarrow> b \<in> set (map b_id (bots d)))
          then Some (d\<lparr>coin_transactions := coin_transactions d @ [t\<lparr>ct_type := type\<rparr>]\<rparr>)
          else None)"

definition insert_referral :: "referrals_row \<Rightarrow> db \<Rightarrow> db option" where
  \<comment> \<open>\<^verbatim>\<open>UNIQUE(referred_id)\<close> and the two foreign keys.\<close>
  "insert_referral r d =
     (if r_referred_id r \<notin> set (map r_referred_id (referrals d))
         \<and> r_referrer_id r \<in> set (map u_id (users d))
         \<and> r_referred_id r \<in> set (map u_id (users d))
      then Some (d\<lparr>referrals := referrals d @ [r]\<rparr>)
      else None)"

definition handle_daily_coin_claim :: "users_row \<Rightarrow> users_row \<Rightarrow> db \<Rightarrow> db option" where
  \<comment> \<open>Trigger function of \<^verbatim>\<open>after_coin_claim\<close>, with \<^verbatim>\<open>OLD\<close> and \<^verbatim>\<open>NEW\<close>.\<close>
  "handle_daily_coin_claim OLD NEW d =
     (if u_last_coin_claim NEW \<noteq> None \<and> u_last_coin_claim OLD \<noteq> u_last_coin_claim NEW
      then insert_coin_transaction
             \<lparr>ct_user_id = u_id NEW, ct_amount = 10, ct_type = ''daily_claim'',
              ct_description = Some ''Daily coin claim'', ct_related_bot_id = None\<rparr> d
      else Some d)"

fun after_coin_claim :: "(users_row \<times> users_row) list \<Rightarrow> db \<Rightarrow> db option" where
  \<comment> \<open>\<^verbatim>\<open>AFTER UPDATE ON users FOR EACH ROW\<close>\<close>
  "after_coin_claim [] d = Some d"
| "after_coin_claim ((OLD, NEW) # rows) d =
     do { d1 \<leftarrow> handle_daily_coin_claim OLD NEW d; after_coin_claim rows d1 }"

definition update_users :: "(users_row \<Rightarrow> bool) \<Rightarrow> (users_row \<Rightarrow> users_row) \<Rightarrow> db \<Rightarrow> db option" where
  \<comment> \<open>\<^verbatim>\<open>UPDATE users SET ... WHERE ...\<close>; no statement of the server sets a column
      that has a UNIQUE constraint or a length.\<close>
  "update_users wh st d =
     (let hit = filter wh (users d) in
      if list_all (\<lambda>u. users_checks (st u)) hit
      then after_coin_claim (map (\<lambda>u. (u, st u)) hit)
             (d\<lparr>users := map (\<lambda>u. if wh u then st u else u) (users d)\<rparr>)
      else None)"

definition add_coins :: "int \<Rightarrow> users_row \<Rightarrow> users_row" where
  \<comment> \<open>\<^verbatim>\<open>SET coins = coins + n\<close>\<close>
  "add_coins n u = u\<lparr>u_coins := u_coins u + n\<rparr>"

definition claimed :: "date \<Rightarrow> users_row \<Rightarrow> users_row" where
  \<comment> \<open>\<^verbatim>\<open>SET coins = coins + 10, last_coin_claim = $1\<close>\<close>
  "claimed day u = u\<lparr>u_coins := u_coins u + 10, u_last_coin_claim := Some day\<rparr>"

definition handle_referral_bonus :: "users_row \<Rightarrow> db \<Rightarrow> db option" where
  \<comment> \<open>Trigger function of \<^verbatim>\<open>after_user_insert\<close>, with \<^verbatim>\<open>NEW\<close>.\<close>
  "handle_referral_bonus NEW d =
     (case u_referrer_id NEW of
        None \<Rightarrow> Some d
      | Some referrer \<Rightarrow>
          do {
            d1 \<leftarrow> update_users (\<lambda>u. u_id u = referrer) (add_coins 100) d;
            d2 \<leftarrow> insert_referral
                   \<lparr>r_referrer_id = referrer, r_referred_id = u_id NEW, r_bonus_given = True\<rparr> d1;
            d3 \<leftarrow> insert_coin_transaction
                   \<lparr>ct_user_id = referrer, ct_amount = 100, ct_type = ''referral_bonus'',
                    ct_description = Some (''Referral bonus for new user: '' @ u_username NEW),
                    ct_related_bot_id = None\<rparr> d2;
            d4 \<leftarrow> update_users (\<lambda>u. u_id u = u_id NEW) (add_coins 50) d3;
            insert_coin_transaction
              \<lparr>ct_user_id = u_id NEW, ct_amount = 50, ct_type = ''referral_bonus'',
               ct_description = Some ''Welcome bonus from referral'',
               ct_related_bot_id = None\<rparr> d4
          })"

definition insert_user :: "users_row \<Rightarrow> db \<Rightarrow> (users_row \<times> db) option" where
  \<comment> \<open>\<^verbatim>\<open>INSERT INTO users ... RETURNING\<close>: column lengths, primary key and UNIQUE
      columns, CHECK constraints, the foreign key of \<^verbatim>\<open>referrer_id\<close>, then the AFTER
      INSERT trigger. The row that is returned is the row as inserted, before the trigger.\<close>
  "insert_user row d =
     (case users_varchars row of
        None \<Rightarrow> None
      | Some NEW \<Rightarrow>
          if users_checks NEW
             \<and> u_id NEW \<notin> set (map u_id (users d))
             \<and> u_username NEW \<notin> set (map u_username (users d))
             \<and> u_email NEW \<notin> set (map u_email (users d))
             \<and> u_referral_code NEW \<notin> set (map u_referral_code (users d))
             \<and> (case u_referrer_id NEW of
                  None \<Rightarrow> True
                | Some r \<Rightarrow> r \<in> set (map u_id (users d)))
          then map_option (Pair NEW) (handle_referral_bonus NEW (d\<lparr>users := users d @ [NEW]\<rparr>))
          else None)"

definition bots_columns :: "(string \<Rightarrow> string option) \<Rightarrow> bots_row \<Rightarrow> bots_row option" where
  \<comment> \<open>The row as its \<^verbatim>\<open>VARCHAR\<close> and \<^verbatim>\<open>JSONB\<close> columns store it; the first argument
      is the input function of \<^verbatim>\<open>JSONB\<close>.\<close>
  "bots_columns jsonb b =
     do {
       name \<leftarrow> varchar 100 (b_name b);
       url \<leftarrow> varchar 500 (b_repo_url b);
       vars \<leftarrow> (case b_env_vars b of
                 None \<Rightarrow> Some None
               | Some v \<Rightarrow> map_option Some (jsonb v));
       status \<leftarrow> varchar 20 (b_status b);
       Some (b\<lparr>b_name := name, b_repo_url := url, b_env_vars := vars, b_status := status\<rparr>)
     }"

definition insert_bot ::
  "(string \<Rightarrow> string option) \<Rightarrow> bots_row \<Rightarrow> db \<Rightarrow> (bots_row \<times> db) option" where
  \<comment> \<open>\<^verbatim>\<open>INSERT INTO bots ... RETURNING *\<close>\<close>
  "insert_bot jsonb row d =
     (case bots_columns jsonb row of
        None \<Rightarrow> None
      | Some NEW \<Rightarrow>
          if valid_repo_url (b_repo_url NEW) \<and> b_status NEW \<in> set bot_statuses
             \<and> b_id NEW \<notin> set (map b_id (bots d))
             \<and> b_user_id NEW \<in> set (map u_id (users d))
          then Some (NEW, d\<lparr>bots := bots d @ [NEW]\<rparr>)
          else None)"

definition insert_community_message :: "community_messages_row \<Rightarrow> db \<Rightarrow> db option" where
  \<comment> \<open>\<^verbatim>\<open>CHECK (LENGTH(message) BETWEEN 1 AND 1000)\<close>\<close>
  "insert_community_message m d =
     (if 1 \<le> length (m_message m) \<and> length (m_message m) \<le> 1000
         \<and> m_id m \<notin> set (map m_id (community_messages d))
         \<and> m_user_id m \<in> set (map u_id (users d))
      then Some (d\<lparr>community_messages := community_messages d @ [m]\<rparr>)
      else None)"

section \<open>What the handlers take from outside the repository\<close>

text \<open>
  The libraries and the clock are not part of the repository; a handler takes what they
  return as the fields of an environment, one environment for each request:
  \<^item> \<open>JWT_SECRET\<close> is \<^verbatim>\<open>process.env.JWT_SECRET\<close>, \<open>clock\<close> the time in seconds;
  \<^item> \<open>today\<close> is \<^verbatim>\<open>new Date().toISOString().split('T')[0]\<close>;
  \<^item> \<open>random36\<close> is \<^verbatim>\<open>Math.random().toString(36).substring(2, 8)\<close>;
  \<^item> \<open>generateVerificationToken\<close> is the string that call returns;
  \<^item> \<open>uuid_generate_v4\<close> is the key the database draws for the row the handler inserts;
  \<^item> \<open>sendMail_ok\<close> tells whether \<^verbatim>\<open>transporter.sendMail\<close> resolves (or rejects);
  \<^item> \<open>bcrypt_hash\<close> and \<open>bcrypt_compare\<close> are the two functions of \<^verbatim>\<open>bcryptjs\<close>;
  \<^item> \<open>pg_date\<close> is the JavaScript value the driver hands over for a \<^verbatim>\<open>DATE\<close> column.
    With the type parsers \<^verbatim>\<open>pg\<close> registers by default that is a \<^verbatim>\<open>Date\<close> object
    (\<open>JSDate\<close>), and the server registers no other parser; a parser that returns the
    column's text \<^verbatim>\<open>YYYY-MM-DD\<close> is \<open>JSString\<close>;
  \<^item> \<open>jsonb_in\<close> is the input function of the type \<^verbatim>\<open>JSONB\<close> of the database: the value
    it stores for a text, or none when the text is not JSON and the statement raises.
\<close>

datatype jsval = JSNull | JSString string | JSDate date

fun strict_eq_string :: "jsval \<Rightarrow> string \<Rightarrow> bool" where
  \<comment> \<open>\<^verbatim>\<open>v === s\<close> for a string \<open>s\<close>: true for the same string only, never for
      \<^verbatim>\<open>null\<close> or for an object.\<close>
  "strict_eq_string (JSString a) s = (a = s)"
| "strict_eq_string JSNull s = False"
| "strict_eq_string (JSDate d) s = False"

record env =
  JWT_SECRET :: string
  clock :: nat
  today :: date
  random36 :: string
  generateVerificationToken :: string
  uuid_generate_v4 :: uuid
  sendMail_ok :: bool
  bcrypt_hash :: "string \<Rightarrow> string"
  bcrypt_compare :: "string \<Rightarrow> string \<Rightarrow> bool"
  pg_date :: "date \<Rightarrow> jsval"
  jsonb_in :: "string \<Rightarrow> string option"

subsection \<open>Signed tokens\<close>

text \<open>
  A token of \<^verbatim>\<open>jsonwebtoken\<close> is modelled by what it carries: the payload, the secret
  it was signed with and its expiry. \<^verbatim>\<open>jwt.verify\<close> accepts a token signed with the
  same secret that has not expired.
\<close>

record jwt =
  userId :: uuid
  email :: string
  signed_with :: string
  exp :: nat

definition jwt_sign :: "uuid \<Rightarrow> string \<Rightarrow> string \<Rightarrow> nat \<Rightarrow> jwt" where
  \<comment> \<open>\<^verbatim>\<open>jwt.sign({ userId, email }, secret, { expiresIn: '7d' })\<close>\<close>
  "jwt_sign uid em secret now =
     \<lparr>userId = uid, email = em, signed_with = secret, exp = now + 7 * 24 * 60 * 60\<rparr>"

definition jwt_verify :: "jwt \<Rightarrow> string \<Rightarrow> nat \<Rightarrow> jwt option" where
  "jwt_verify token secret now =
     (if signed_with token = secret \<and> now < exp token then Some token else None)"

subsection \<open>Responses\<close>

datatype user_json = UserJson uuid string string int "bool option"
  \<comment> \<open>\<^verbatim>\<open>{ id, username, email, coins, isAdmin }\<close>; registration sends no \<^verbatim>\<open>isAdmin\<close>\<close>

datatype body =
    Error string
  | Session jwt user_json
  | Message string
  | Coins int string
  | Bot string bots_row
  | Chat community_messages_row string
  | Undefined

datatype response = Response nat body

definition json :: "body \<Rightarrow> response" where
  \<comment> \<open>\<^verbatim>\<open>res.json(...)\<close> with the default status\<close>
  "json b = Response 200 b"

section \<open>The handlers\<close>

definition authenticateToken :: "env \<Rightarrow> jwt option \<Rightarrow> response + jwt" where
  \<comment> \<open>The argument is \<^verbatim>\<open>authHeader && authHeader.split(' ')[1]\<close>: \<open>None\<close> when the
      header is missing or has no second part.\<close>
  "authenticateToken e token =
     (case token of
        None \<Rightarrow> Inl (Response 401 (Error ''Access token required''))
      | Some t \<Rightarrow>
          (case jwt_verify t (JWT_SECRET e) (clock e) of
             None \<Rightarrow> Inl (Response 403 (Error ''Invalid token''))
           | Some user \<Rightarrow> Inr user))"

definition upper_char :: "char \<Rightarrow> char" where
  \<comment> \<open>The capital of a small letter is 32 below it: bit 5 of the code is cleared.\<close>
  "upper_char c =
     (if is_lower c
      then (case c of Char b0 b1 b2 b3 b4 b5 b6 b7 \<Rightarrow> Char b0 b1 b2 b3 b4 False b6 b7)
      else c)"

definition toUpperCase :: "string \<Rightarrow> string" where
  "toUpperCase s = map upper_char s"

record register_body =
  username :: string
  email' :: string
  password :: string
  referralCode :: "string option"

definition lookup_referrer :: "string option \<Rightarrow> db \<Rightarrow> uuid option" where
  \<comment> \<open>The block \<^verbatim>\<open>// Handle referral\<close>: an absent or empty code is not looked up.\<close>
  "lookup_referrer code d =
     (case code of
        None \<Rightarrow> None
      | Some c \<Rightarrow>
          if c = [] then None
          else (case filter (\<lambda>u. u_referral_code u = c) (users d) of
                  [] \<Rightarrow> None
                | referrerResult # _ \<Rightarrow> Some (u_id referrerResult)))"

definition new_user :: "env \<Rightarrow> register_body \<Rightarrow> uuid option \<Rightarrow> users_row" where
  \<comment> \<open>The row of \<^verbatim>\<open>INSERT INTO users\<close>: the seven values of the statement and the
      defaults of the other columns.\<close>
  "new_user e req referrerId =
     \<lparr>u_id = uuid_generate_v4 e, u_username = username req, u_email = email' req,
      u_password = bcrypt_hash e (password req),
      u_referral_code = username req @ toUpperCase (random36 e),
      u_referrer_id = referrerId,
      u_verification_token = Some (generateVerificationToken e),
      u_is_verified = False, u_is_admin = False,
      u_coins = (if referrerId \<noteq> None then 50 else 0),
      u_last_coin_claim = None\<rparr>"

definition post_api_register :: "env \<Rightarrow> register_body \<Rightarrow> db \<Rightarrow> response \<times> db" where
  "post_api_register e req d =
     (if filter (\<lambda>u. u_email u = email' req \<or> u_username u = username req) (users d) \<noteq> []
      then (Response 400 (Error ''User already exists''), d)
      else
        let referrerId = lookup_referrer (referralCode req) d
        in case insert_user (new_user e req referrerId) d of
             None \<Rightarrow> (Response 500 (Error ''Registration failed''), d)
           | Some (result, d1) \<Rightarrow>
               (case (case referrerId of
                        None \<Rightarrow> Some d1
                      | Some r \<Rightarrow> update_users (\<lambda>u. u_id u = r) (add_coins 100) d1) of
                  None \<Rightarrow> (Response 500 (Error ''Registration failed''), d1)
                | Some d2 \<Rightarrow>
                    if \<not> sendMail_ok e
                    then (Response 500 (Error ''Registration failed''), d2)
                    else (json (Session
                                 (jwt_sign (u_id result) (u_email result) (JWT_SECRET e)
                                    (clock e))
                                 (UserJson (u_id result) (u_username result) (u_email result)
                                    (u_coins result) None)),
                          d2)))"

record login_body =
  login_email :: string
  login_password :: string

definition post_api_login :: "env \<Rightarrow> login_body \<Rightarrow> db \<Rightarrow> response \<times> db" where
  "post_api_login e req d =
     (case filter (\<lambda>u. u_email u = login_email req) (users d) of
        [] \<Rightarrow> (Response 400 (Error ''Invalid credentials''), d)
      | user # _ \<Rightarrow>
          if \<not> u_is_verified user
          then (Response 400 (Error ''Please verify your email first''), d)
          else if \<not> bcrypt_compare e (login_password req) (u_password user)
          then (Response 400 (Error ''Invalid credentials''), d)
          else (json (Session
                       (jwt_sign (u_id user) (u_email user) (JWT_SECRET e) (clock e))
                       (UserJson (u_id user) (u_username user) (u_email user) (u_coins user)
                          (Some (u_is_admin user)))),
                d))"

definition holds_token :: "string option \<Rightarrow> users_row \<Rightarrow> bool" where
  \<comment> \<open>\<^verbatim>\<open>WHERE verification_token = $1\<close>; the argument is \<^verbatim>\<open>req.query.token\<close>, and a
      missing one is sent as \<^verbatim>\<open>NULL\<close>, which equals no column value.\<close>
  "holds_token token u =
     (case token of None \<Rightarrow> False | Some t \<Rightarrow> u_verification_token u = Some t)"

definition get_api_verify_email :: "string option \<Rightarrow> db \<Rightarrow> response \<times> db" where
  "get_api_verify_email token d =
     (case update_users (holds_token token) (\<lambda>u. u\<lparr>u_is_verified := True\<rparr>) d of
        None \<Rightarrow> (Response 500 (Error ''Verification failed''), d)
      | Some d1 \<Rightarrow>
          if filter (holds_token token) (users d) = []
          then (Response 400 (Error ''Invalid verification token''), d1)
          else (json (Message ''Email verified successfully''), d1))"

definition post_api_claim_daily_coins :: "env \<Rightarrow> jwt option \<Rightarrow> db \<Rightarrow> response \<times> db" where
  "post_api_claim_daily_coins e token d =
     (case authenticateToken e token of
        Inl r \<Rightarrow> (r, d)
      | Inr user \<Rightarrow>
          (case filter (\<lambda>u. u_id u = userId user) (users d) of
             [] \<Rightarrow> (Response 500 (Error ''Failed to claim coins''), d)
           | lastClaim # _ \<Rightarrow>
               if strict_eq_string
                    (case u_last_coin_claim lastClaim of
                       None \<Rightarrow> JSNull
                     | Some day \<Rightarrow> pg_date e day)
                    (today e)
               then (Response 400 (Error ''Already claimed coins today''), d)
               else
                 (case update_users (\<lambda>u. u_id u = userId user) (claimed (today e)) d of
                    None \<Rightarrow> (Response 500 (Error ''Failed to claim coins''), d)
                  | Some d1 \<Rightarrow>
                      (case filter (\<lambda>u. u_id u = userId user) (users d1) of
                         [] \<Rightarrow> (Response 500 (Error ''Failed to claim coins''), d1)
                       | newBalance # _ \<Rightarrow>
                           (json (Coins (u_coins newBalance) ''10 coins claimed successfully''),
                            d1)))))"

text \<open>
  \<open>envVars\<close> is the text the driver sends to the database for \<^verbatim>\<open>req.body.envVars\<close>, none
  when the request has no such field.
\<close>

record bots_body =
  botName :: string
  repoUrl :: string
  envVars :: "string option"
  description :: "string option"

definition new_bot :: "env \<Rightarrow> uuid \<Rightarrow> bots_body \<Rightarrow> bots_row" where
  \<comment> \<open>The row of \<^verbatim>\<open>INSERT INTO bots\<close>: the values of the statement and the key.\<close>
  "new_bot e owner req =
     \<lparr>b_id = uuid_generate_v4 e, b_user_id = owner, b_name = botName req,
      b_repo_url = repoUrl req, b_env_vars = envVars req, b_description = description req,
      b_status = ''pending''\<rparr>"

definition post_api_bots :: "env \<Rightarrow> jwt option \<Rightarrow> bots_body \<Rightarrow> db \<Rightarrow> response \<times> db" where
  "post_api_bots e token req d =
     (case authenticateToken e token of
        Inl r \<Rightarrow> (r, d)
      | Inr user \<Rightarrow>
          (case filter (\<lambda>u. u_id u = userId user) (users d) of
             [] \<Rightarrow> (Response 500 (Error ''Failed to deploy bot''), d)
           | userResult # _ \<Rightarrow>
               if u_coins userResult < 50
               then (Response 400 (Error ''Insufficient coins''), d)
               else
                 (case update_users (\<lambda>u. u_id u = userId user) (add_coins (- 50)) d of
                    None \<Rightarrow> (Response 500 (Error ''Failed to deploy bot''), d)
                  | Some d1 \<Rightarrow>
                      (case insert_bot (jsonb_in e) (new_bot e (userId user) req) d1 of
                         None \<Rightarrow> (Response 500 (Error ''Failed to deploy bot''), d1)
                       | Some (botResult, d2) \<Rightarrow>
                           (json (Bot ''Bot deployment started'' botResult), d2)))))"

definition deployment_timer :: "uuid \<Rightarrow> db \<Rightarrow> db" where
  \<comment> \<open>The callback of \<^verbatim>\<open>setTimeout\<close>, five seconds after the response.\<close>
  "deployment_timer botId d =
     d\<lparr>bots := map (\<lambda>b. if b_id b = botId then b\<lparr>b_status := ''deployed''\<rparr> else b) (bots d)\<rparr>"

text \<open>
  The second query of the next handler joins the new message with its author; were there
  no such row, \<^verbatim>\<open>res.json(undefined)\<close> would answer with an empty body.
\<close>

definition post_api_community_messages ::
  "env \<Rightarrow> jwt option \<Rightarrow> string \<Rightarrow> db \<Rightarrow> response \<times> db" where
  "post_api_community_messages e token message d =
     (case authenticateToken e token of
        Inl r \<Rightarrow> (r, d)
      | Inr user \<Rightarrow>
          let m = \<lparr>m_id = uuid_generate_v4 e, m_user_id = userId user, m_message = message\<rparr>
          in (case insert_community_message m d of
                None \<Rightarrow> (Response 500 (Error ''Failed to send message''), d)
              | Some d1 \<Rightarrow>
                  (case filter (\<lambda>u. u_id u = m_user_id m) (users d1) of
                     [] \<Rightarrow> (json Undefined, d1)
                   | u # _ \<Rightarrow> (json (Chat m (u_username u)), d1))))"

section \<open>Balances and the ledger\<close>

definition balance :: "db \<Rightarrow> uuid \<Rightarrow> int list" where
  \<comment> \<open>\<^verbatim>\<open>SELECT coins FROM users WHERE id = $1\<close>\<close>
  "balance d a = map u_coins (filter (\<lambda>u. u_id u = a) (users d))"

definition ledger :: "db \<Rightarrow> uuid \<Rightarrow> coin_transactions_row list" where
  "ledger d a = filter (\<lambda>t. ct_user_id t = a) (coin_transactions d)"

definition ledger_sum :: "db \<Rightarrow> uuid \<Rightarrow> int" where
  "ledger_sum d a = sum_list (map ct_amount (ledger d a))"

definition kept_or_nonneg :: "db \<Rightarrow> db \<Rightarrow> bool" where
  \<comment> \<open>Every \<^verbatim>\<open>users\<close> row of the second state is a row of the first or has \<open>0 \<le> coins\<close>.\<close>
  "kept_or_nonneg d d' = list_all (\<lambda>u. u \<in> set (users d) \<or> 0 \<le> u_coins u) (users d')"

section \<open>Scenarios\<close>

text \<open>
  Concrete requests, used to run the handlers: account \<open>A\<close> registers on an empty
  database and receives the referral code \<^verbatim>\<open>ALICE1X\<close>, account \<open>B\<close> registers with that
  code; \<open>A\<close> claims on five days and then deploys a bot. The hash function of the test
  environment puts a \<^verbatim>\<open>#\<close> in front of the password, its driver hands a
  \<^verbatim>\<open>DATE\<close> over as a \<^verbatim>\<open>Date\<close> object, and its \<^verbatim>\<open>JSONB\<close> input accepts the empty
  object \<^verbatim>\<open>{}\<close> and nothing else.
\<close>

definition test_env :: env where
  "test_env = \<lparr>JWT_SECRET = ''secret'', clock = 1000, today = ''2024-03-01'',
     random36 = ''lice1x'', generateVerificationToken = ''tokenA'', uuid_generate_v4 = 1,
     sendMail_ok = True, bcrypt_hash = (\<lambda>p. CHR ''#'' # p),
     bcrypt_compare = (\<lambda>p h. h = CHR ''#'' # p), pg_date = JSDate,
     jsonb_in = (\<lambda>v. if v = ''{}'' then Some ''{}'' else None)\<rparr>"

definition account_A :: register_body where
  "account_A = \<lparr>username = ''A'', email' = ''a@example.com'', password = ''pwA'',
     referralCode = None\<rparr>"

definition account_B :: register_body where
  "account_B = \<lparr>username = ''B'', email' = ''b@example.com'', password = ''pwB'',
     referralCode = Some ''ALICE1X''\<rparr>"

definition env_B :: env where
  "env_B = test_env\<lparr>random36 := ''q7w8e9'', generateVerificationToken := ''tokenB'',
     uuid_generate_v4 := 2\<rparr>"

definition db_A :: db where
  "db_A = snd (post_api_register test_env account_A empty_db)"

definition db_AB :: db where
  "db_AB = snd (post_api_register env_B account_B db_A)"

definition token_A :: jwt where
  "token_A = jwt_sign 1 ''a@example.com'' ''secret'' 1000"

definition token_B :: jwt where
  "token_B = jwt_sign 2 ''b@example.com'' ''secret'' 1000"

definition on_day :: "date \<Rightarrow> env" where
  "on_day day = test_env\<lparr>today := day, uuid_generate_v4 := 7\<rparr>"

definition on_day_text :: "date \<Rightarrow> env" where
  \<comment> \<open>The same request with a driver that hands a \<^verbatim>\<open>DATE\<close> over as text.\<close>
  "on_day_text day = (on_day day)\<lparr>pg_date := JSString\<rparr>"

definition db_A_claimed :: db where
  "db_A_claimed = snd (post_api_claim_daily_coins (on_day ''2024-03-01'') (Some token_A) db_A)"

definition db_A_claimed_twice :: db where
  "db_A_claimed_twice =
     snd (post_api_claim_daily_coins ((on_day ''2024-03-01'')\<lparr>clock := 5000\<rparr>) (Some token_A)
            db_A_claimed)"

definition db_A_50 :: db where
  "db_A_50 =
     fold (\<lambda>day d. snd (post_api_claim_daily_coins (on_day day) (Some token_A) d))
       [''2024-03-01'', ''2024-03-02'', ''2024-03-03'', ''2024-03-04'', ''2024-03-05''] db_A"

definition bot_spec :: bots_body where
  "bot_spec = \<lparr>botName = ''helper'', repoUrl = ''https://github.com/a/helper'',
     envVars = Some ''{}'', description = None\<rparr>"

definition db_A_deployed :: db where
  "db_A_deployed = snd (post_api_bots (on_day ''2024-03-06'') (Some token_A) bot_spec db_A_50)"

definition row_A :: users_row where
  "row_A = \<lparr>u_id = 1, u_username = ''A'', u_email = ''a@example.com'', u_password = ''#pwA'',
     u_referral_code = ''ALICE1X'', u_referrer_id = None,
     u_verification_token = Some ''tokenA'', u_is_verified = False, u_is_admin = False,
     u_coins = 0, u_last_coin_claim = None\<rparr>"

definition row_B :: users_row where
  "row_B = \<lparr>u_id = 2, u_username = ''B'', u_email = ''b@example.com'', u_password = ''#pwB'',
     u_referral_code = ''BQ7W8E9'', u_referrer_id = Some 1,
     u_verification_token = Some ''tokenB'', u_is_verified = False, u_is_admin = False,
     u_coins = 50, u_last_coin_claim = None\<rparr>"

definition pending_bot :: bots_row where
  "pending_bot = \<lparr>b_id = 7, b_user_id = 1, b_name = ''helper'',
     b_repo_url = ''https://github.com/a/helper'', b_env_vars = Some ''{}'',
     b_description = None, b_status = ''pending''\<rparr>"

definition referral_bonus_rows :: "coin_transactions_row list" where
  "referral_bonus_rows =
     [\<lparr>ct_user_id = 1, ct_amount = 100, ct_type = ''referral_bonus'',
       ct_description = Some ''Referral bonus for new user: B'', ct_related_bot_id = None\<rparr>,
      \<lparr>ct_user_id = 2, ct_amount = 50, ct_type = ''referral_bonus'',
       ct_description = Some ''Welcome bonus from referral'', ct_related_bot_id = None\<rparr>]"

definition daily_claim_row :: "uuid \<Rightarrow> coin_transactions_row" where
  "daily_claim_row a = \<lparr>ct_user_id = a, ct_amount = 10, ct_type = ''daily_claim'',
     ct_description = Some ''Daily coin claim'', ct_related_bot_id = None\<rparr>"

section \<open>Running the scenarios\<close>

lemma varchar_short: "length s \<le> n \<Longrightarrow> varchar n s = Some s"
  by (simp add: varchar_def)

lemma insert_coin_transaction_eq:
  assumes "length (ct_type t) \<le> 20"
  shows "insert_coin_transaction t d =
     (if int4 (ct_amount t) \<and> ct_type t \<in> set coin_transaction_types
         \<and> ct_user_id t \<in> set (map u_id (users d))
         \<and> (case ct_related_bot_id t of None \<Rightarrow> True | Some b \<Rightarrow> b \<in> set (map b_id (bots d)))
      then Some (d\<lparr>coin_transactions := coin_transactions d @ [t]\<rparr>)
      else None)"
  by (simp add: insert_coin_transaction_def varchar_short [OF assms])

lemmas check_defs = int4_def varchar_short is_lower_def is_upper_def is_digit_def is_alpha_def
  is_alnum_def valid_username_def email_local_char_def email_domain_char_def valid_email_def
  valid_repo_url_def bot_statuses_def coin_transaction_types_def users_checks_def
  users_varchars_def

lemmas sql_defs = insert_coin_transaction_eq insert_referral_def handle_daily_coin_claim_def
  update_users_def add_coins_def claimed_def handle_referral_bonus_def insert_user_def
  bots_columns_def insert_bot_def
  insert_community_message_def

lemmas handler_defs = authenticateToken_def jwt_sign_def jwt_verify_def json_def toUpperCase_def
  upper_char_def lookup_referrer_def new_user_def new_bot_def post_api_register_def
  post_api_login_def holds_token_def
  get_api_verify_email_def
  post_api_claim_daily_coins_def post_api_bots_def post_api_community_messages_def

lemmas scenario_defs = test_env_def account_A_def account_B_def env_B_def token_A_def
  token_B_def on_day_def on_day_text_def bot_spec_def empty_db_def row_A_def row_B_def
  daily_claim_row_def pending_bot_def referral_bonus_rows_def

lemma register_A:
  "post_api_register test_env account_A empty_db =
     (json (Session token_A (UserJson 1 ''A'' ''a@example.com'' 0 None)),
      empty_db\<lparr>users := [row_A]\<rparr>)"
  by (simp add: scenario_defs handler_defs sql_defs check_defs)

lemma db_A_eq: "db_A = empty_db\<lparr>users := [row_A]\<rparr>"
  by (simp add: db_A_def register_A)

lemma db_A_50_eq:
  "db_A_50 = empty_db\<lparr>
     users := [row_A\<lparr>u_coins := 50, u_last_coin_claim := Some ''2024-03-05''\<rparr>],
     coin_transactions := map daily_claim_row [1, 1, 1, 1, 1]\<rparr>"
  by (simp add: db_A_50_def db_A_eq scenario_defs handler_defs sql_defs check_defs)

section \<open>How the statements change the tables\<close>

lemma after_coin_claim_frame:
  "after_coin_claim rows d = Some d' \<Longrightarrow>
     users d' = users d \<and> bots d' = bots d \<and> referrals d' = referrals d
     \<and> community_messages d' = community_messages d"
proof (induction rows arbitrary: d)
  case Nil
  then show ?case by simp
next
  case (Cons r rows)
  obtain OLD NEW where r: "r = (OLD, NEW)" by (cases r)
  from Cons.prems obtain d1 where
    d1: "handle_daily_coin_claim OLD NEW d = Some d1" and rest: "after_coin_claim rows d1 = Some d'"
    by (auto simp: r bind_eq_Some_conv)
  from d1 have "users d1 = users d \<and> bots d1 = bots d \<and> referrals d1 = referrals d
     \<and> community_messages d1 = community_messages d"
    by (auto simp: handle_daily_coin_claim_def insert_coin_transaction_eq split: if_splits)
  with Cons.IH [OF rest] show ?case by simp
qed

lemma after_coin_claim_same_day:
  "list_all (\<lambda>(OLD, NEW). u_last_coin_claim NEW = u_last_coin_claim OLD) rows \<Longrightarrow>
     after_coin_claim rows d = Some d"
  by (induction rows arbitrary: d) (auto simp: handle_daily_coin_claim_def)

lemma update_users_frame:
  assumes "update_users wh st d = Some d'"
  shows "users d' = map (\<lambda>u. if wh u then st u else u) (users d)"
    and "bots d' = bots d" and "referrals d' = referrals d"
    and "community_messages d' = community_messages d"
    and "list_all (\<lambda>u. users_checks (st u)) (filter wh (users d))"
  using assms after_coin_claim_frame [of "map (\<lambda>u. (u, st u)) (filter wh (users d))"
      "d\<lparr>users := map (\<lambda>u. if wh u then st u else u) (users d)\<rparr>" d']
  by (auto simp: update_users_def Let_def split: if_splits)

lemma update_users_same_day:
  assumes "\<And>u. u_last_coin_claim (st u) = u_last_coin_claim u"
  shows "update_users wh st d =
     (if list_all (\<lambda>u. users_checks (st u)) (filter wh (users d))
      then Some (d\<lparr>users := map (\<lambda>u. if wh u then st u else u) (users d)\<rparr>)
      else None)"
proof -
  have "list_all (\<lambda>(OLD, NEW). u_last_coin_claim NEW = u_last_coin_claim OLD)
          (map (\<lambda>u. (u, st u)) (filter wh (users d)))"
    by (simp add: list_all_iff assms)
  then show ?thesis
    by (simp add: update_users_def Let_def after_coin_claim_same_day)
qed

lemma update_users_one:
  assumes "filter wh (users d) = [acct]"
  shows "update_users wh st d =
     (if users_checks (st acct)
      then handle_daily_coin_claim acct (st acct)
             (d\<lparr>users := map (\<lambda>u. if wh u then st u else u) (users d)\<rparr>)
      else None)"
proof -
  have "after_coin_claim [] = Some" by (rule ext) simp
  then show ?thesis by (simp add: update_users_def Let_def assms)
qed

lemma filter_map_update:
  assumes "\<And>u. P (f u) = P u"
  shows "filter P (map (\<lambda>u. if P u then f u else u) xs) = map f (filter P xs)"
  by (induction xs) (auto simp: assms)

section \<open>The claims\<close>

text \<open>
  C5. For an account whose balance is below 50, the deployment request is answered with
  \<^verbatim>\<open>Insufficient coins\<close> and the database is left exactly as it was: the balance is
  unchanged and no bot row is written. The account is the row the token of the request
  names.
\<close>

theorem deployment_needs_fifty_coins:
  assumes "authenticateToken e token = Inr user"
    and "filter (\<lambda>u. u_id u = userId user) (users d) = acct # others"
    and "u_coins acct < 50"
  shows "post_api_bots e token req d = (Response 400 (Error ''Insufficient coins''), d)"
  using assms by (simp add: post_api_bots_def)

theorem deployment_needs_fifty_coins_witness:
  "authenticateToken test_env (Some token_A) = Inr token_A
   \<and> filter (\<lambda>u. u_id u = userId token_A) (users db_A) = row_A # []
   \<and> u_coins row_A < 50
   \<and> post_api_bots test_env (Some token_A) bot_spec db_A
       = (Response 400 (Error ''Insufficient coins''), db_A)"
proof -
  have a: "authenticateToken test_env (Some token_A) = Inr token_A"
    by (simp add: scenario_defs handler_defs)
  have f: "filter (\<lambda>u. u_id u = userId token_A) (users db_A) = row_A # []"
    by (simp add: db_A_eq scenario_defs handler_defs)
  have c: "u_coins row_A < 50"
    by (simp add: row_A_def)
  show ?thesis
    using a f c deployment_needs_fifty_coins [OF a f c, where req = bot_spec] by simp
qed

text \<open>
  C9. A login with an email that no account has is answered with
  \<^verbatim>\<open>Invalid credentials\<close>. A login for an account that is not verified is answered with
  \<^verbatim>\<open>Please verify your email first\<close>, whatever the password is and whatever the
  comparison of the password with the stored hash would say: the password is not looked at.
\<close>

theorem login_checks_verification_first:
  "(filter (\<lambda>u. u_email u = em) (users d) = [] \<longrightarrow>
      post_api_login (e\<lparr>bcrypt_compare := cmp\<rparr>) \<lparr>login_email = em, login_password = pw\<rparr> d
        = (Response 400 (Error ''Invalid credentials''), d))
   \<and> (filter (\<lambda>u. u_email u = em) (users d) = user # others \<and> \<not> u_is_verified user \<longrightarrow>
      post_api_login (e\<lparr>bcrypt_compare := cmp\<rparr>) \<lparr>login_email = em, login_password = pw\<rparr> d
        = (Response 400 (Error ''Please verify your email first''), d))"
  by (simp add: post_api_login_def)

theorem login_checks_verification_first_witness:
  "filter (\<lambda>u. u_email u = ''nobody@example.com'') (users db_A) = []
   \<and> post_api_login (test_env\<lparr>bcrypt_compare := (\<lambda>p h. True)\<rparr>)
        \<lparr>login_email = ''nobody@example.com'', login_password = ''pwA''\<rparr> db_A
       = (Response 400 (Error ''Invalid credentials''), db_A)
   \<and> filter (\<lambda>u. u_email u = ''a@example.com'') (users db_A) = row_A # []
   \<and> \<not> u_is_verified row_A
   \<and> post_api_login (test_env\<lparr>bcrypt_compare := (\<lambda>p h. True)\<rparr>)
        \<lparr>login_email = ''a@example.com'', login_password = ''pwA''\<rparr> db_A
       = (Response 400 (Error ''Please verify your email first''), db_A)"
proof -
  have n: "filter (\<lambda>u. u_email u = ''nobody@example.com'') (users db_A) = []"
    by (simp add: db_A_eq scenario_defs)
  have f: "filter (\<lambda>u. u_email u = ''a@example.com'') (users db_A) = row_A # []"
    by (simp add: db_A_eq scenario_defs)
  have v: "\<not> u_is_verified row_A"
    by (simp add: row_A_def)
  show ?thesis
    using n f v
      login_checks_verification_first [where em = "''nobody@example.com''" and d = db_A
        and e = test_env and cmp = "\<lambda>p h. True" and pw = "''pwA''" and user = row_A
        and others = "[]"]
      login_checks_verification_first [where em = "''a@example.com''" and d = db_A
        and e = test_env and cmp = "\<lambda>p h. True" and pw = "''pwA''" and user = row_A
        and others = "[]"]
    by simp
qed

text \<open>
  C8, as the claim states it, fails: the identity checks pass and the mail transport
  fails, and the caller is answered with status 500, \<^verbatim>\<open>Registration failed\<close>, although the
  account has been written.
\<close>

theorem mail_failure_fails_registration_counterexample:
  "filter (\<lambda>u. u_email u = email' account_A \<or> u_username u = username account_A)
      (users empty_db) = []
   \<and> post_api_register (test_env\<lparr>sendMail_ok := False\<rparr>) account_A empty_db
       = (Response 500 (Error ''Registration failed''), empty_db\<lparr>users := [row_A]\<rparr>)"
  by (simp add: scenario_defs handler_defs sql_defs check_defs)

text \<open>
  C8, amended. A failure of the mail transport does not undo a registration: the database
  after the request is the same as when the mail is sent, account and referral bonus
  included. But the caller of a registration that would have succeeded is answered with
  status 500, \<^verbatim>\<open>Registration failed\<close>, and receives no session.
\<close>

theorem mail_failure_keeps_account_but_fails_request:
  "snd (post_api_register (e\<lparr>sendMail_ok := False\<rparr>) req d)
     = snd (post_api_register (e\<lparr>sendMail_ok := True\<rparr>) req d)
   \<and> (fst (post_api_register (e\<lparr>sendMail_ok := True\<rparr>) req d) = Response 200 b \<longrightarrow>
        fst (post_api_register (e\<lparr>sendMail_ok := False\<rparr>) req d)
          = Response 500 (Error ''Registration failed''))"
  by (simp add: post_api_register_def new_user_def users_varchars_def Let_def json_def
      split: option.splits prod.splits)

theorem mail_failure_keeps_account_but_fails_request_witness:
  "snd (post_api_register (test_env\<lparr>sendMail_ok := False\<rparr>) account_A empty_db)
     = snd (post_api_register (test_env\<lparr>sendMail_ok := True\<rparr>) account_A empty_db)
   \<and> fst (post_api_register (test_env\<lparr>sendMail_ok := True\<rparr>) account_A empty_db)
       = Response 200 (Session token_A (UserJson 1 ''A'' ''a@example.com'' 0 None))
   \<and> fst (post_api_register (test_env\<lparr>sendMail_ok := False\<rparr>) account_A empty_db)
       = Response 500 (Error ''Registration failed'')"
proof -
  have t: "test_env\<lparr>sendMail_ok := True\<rparr> = test_env"
    by (simp add: test_env_def)
  have ok: "fst (post_api_register (test_env\<lparr>sendMail_ok := True\<rparr>) account_A empty_db)
       = Response 200 (Session token_A (UserJson 1 ''A'' ''a@example.com'' 0 None))"
    by (simp add: t register_A json_def)
  show ?thesis
    using ok mail_failure_keeps_account_but_fails_request [where e = test_env
        and req = account_A and d = empty_db
        and b = "Session token_A (UserJson 1 ''A'' ''a@example.com'' 0 None)"]
    by simp
qed

lemma verify_A:
  "get_api_verify_email (Some ''tokenA'') db_A
     = (json (Message ''Email verified successfully''),
        empty_db\<lparr>users := [row_A\<lparr>u_is_verified := True\<rparr>]\<rparr>)"
  by (simp add: db_A_eq scenario_defs handler_defs sql_defs check_defs)

text \<open>
  C7, as the claim states it, fails: the token of account \<open>A\<close> verifies the account, and
  the same token is accepted a second time.
\<close>

theorem verification_token_reusable_counterexample:
  "fst (get_api_verify_email (Some ''tokenA'') db_A)
     = Response 200 (Message ''Email verified successfully'')
   \<and> fst (get_api_verify_email (Some ''tokenA'')
           (snd (get_api_verify_email (Some ''tokenA'') db_A)))
       = Response 200 (Message ''Email verified successfully'')
   \<and> fst (get_api_verify_email (Some ''tokenA'')
           (snd (get_api_verify_email (Some ''tokenA'') db_A)))
       \<noteq> Response 400 (Error ''Invalid verification token'')"
  by (simp add: verify_A) (simp add: scenario_defs handler_defs sql_defs check_defs)

lemma verify_email_eq:
  "get_api_verify_email token d =
     (if list_all (\<lambda>u. users_checks u) (filter (holds_token token) (users d))
      then (if filter (holds_token token) (users d) = []
            then Response 400 (Error ''Invalid verification token'')
            else json (Message ''Email verified successfully''),
            d\<lparr>users := map (\<lambda>u. if holds_token token u then u\<lparr>u_is_verified := True\<rparr> else u)
                            (users d)\<rparr>)
      else (Response 500 (Error ''Verification failed''), d))"
proof -
  have c: "\<And>u. users_checks (u\<lparr>u_is_verified := True\<rparr>) = users_checks u"
    by (simp add: users_checks_def)
  show ?thesis
    by (simp add: get_api_verify_email_def update_users_same_day c)
qed

lemma verify_email_twice:
  assumes "fst (get_api_verify_email token d) = Response 200 (Message ''Email verified successfully'')"
  shows "get_api_verify_email token (snd (get_api_verify_email token d))
           = (Response 200 (Message ''Email verified successfully''),
              snd (get_api_verify_email token d))"
proof -
  let ?st = "\<lambda>u. u\<lparr>u_is_verified := True\<rparr>"
  let ?up = "\<lambda>u. if holds_token token u then ?st u else u"
  let ?d1 = "d\<lparr>users := map ?up (users d)\<rparr>"
  from assms have ok: "list_all users_checks (filter (holds_token token) (users d))"
    and hit: "filter (holds_token token) (users d) \<noteq> []"
    by (auto simp: verify_email_eq json_def split: if_splits)
  then have d1: "snd (get_api_verify_email token d) = ?d1"
    by (simp add: verify_email_eq)
  have keep: "\<And>u. holds_token token (?st u) = holds_token token u"
    by (simp add: holds_token_def split: option.splits)
  have f: "filter (holds_token token) (map ?up (users d))
             = map ?st (filter (holds_token token) (users d))"
    using keep by (rule filter_map_update)
  have c: "list_all users_checks (map ?st (filter (holds_token token) (users d)))"
    using ok by (simp add: list_all_iff users_checks_def)
  have idem: "map ?up (map ?up (users d)) = map ?up (users d)"
    by (simp add: holds_token_def split: option.splits)
  show ?thesis
    unfolding d1 using hit by (simp add: verify_email_eq f c idem json_def)
qed

text \<open>
  C7, amended. The verification token is not consumed: after one successful verification
  with a token, a second request with the same token succeeds again and changes nothing
  more. A request is answered with \<^verbatim>\<open>Invalid verification token\<close> exactly when no
  account holds the token.
\<close>

theorem verification_token_not_consumed:
  "(fst (get_api_verify_email token d) = Response 200 (Message ''Email verified successfully'')
      \<longrightarrow> get_api_verify_email token (snd (get_api_verify_email token d))
            = (Response 200 (Message ''Email verified successfully''),
               snd (get_api_verify_email token d)))
   \<and> ((fst (get_api_verify_email token d) = Response 400 (Error ''Invalid verification token''))
        = (filter (holds_token token) (users d) = []))"
  using verify_email_twice [of token d]
  by (auto simp: verify_email_eq json_def)

theorem verification_token_not_consumed_witness:
  "fst (get_api_verify_email (Some ''tokenA'') db_A)
     = Response 200 (Message ''Email verified successfully'')
   \<and> get_api_verify_email (Some ''tokenA'') (snd (get_api_verify_email (Some ''tokenA'') db_A))
       = (Response 200 (Message ''Email verified successfully''),
          snd (get_api_verify_email (Some ''tokenA'') db_A))
   \<and> filter (holds_token (Some ''tokenA'')) (users db_A) \<noteq> []"
proof -
  have ok: "fst (get_api_verify_email (Some ''tokenA'') db_A)
     = Response 200 (Message ''Email verified successfully'')"
    by (simp add: verify_A json_def)
  show ?thesis
    using ok verification_token_not_consumed [where token = "Some ''tokenA''" and d = db_A]
    by simp
qed

subsection \<open>The daily claim\<close>

lemma filter_one_mem:
  assumes "filter P xs = [x]"
  shows "x \<in> set xs" and "P x"
proof -
  have "x \<in> set (filter P xs)" by (simp add: assms)
  then show "x \<in> set xs" and "P x" by simp_all
qed

lemma daily_claim_trigger:
  assumes "a \<in> set (map u_id (users d))"
  shows "handle_daily_coin_claim acct (claimed day acct\<lparr>u_id := a\<rparr>) d =
           Some (if u_last_coin_claim acct = Some day then d
                 else d\<lparr>coin_transactions := coin_transactions d @ [daily_claim_row a]\<rparr>)"
  using assms
  by (auto simp: handle_daily_coin_claim_def insert_coin_transaction_eq claimed_def
      daily_claim_row_def int4_def varchar_def coin_transaction_types_def)

lemma claim_daily_ok:
  assumes auth: "authenticateToken e token = Inr user"
    and acct: "filter (\<lambda>u. u_id u = userId user) (users d) = [acct]"
    and other_day: "\<not> strict_eq_string
          (case u_last_coin_claim acct of None \<Rightarrow> JSNull | Some day \<Rightarrow> pg_date e day) (today e)"
    and checks: "users_checks (claimed (today e) acct)"
  shows "post_api_claim_daily_coins e token d =
     (json (Coins (u_coins acct + 10) ''10 coins claimed successfully''),
      d\<lparr>users := map (\<lambda>u. if u_id u = userId user then claimed (today e) u else u) (users d),
        coin_transactions :=
          (if u_last_coin_claim acct = Some (today e) then coin_transactions d
           else coin_transactions d @ [daily_claim_row (userId user)])\<rparr>)"
proof -
  let ?wh = "\<lambda>u. u_id u = userId user"
  let ?st = "claimed (today e)"
  let ?d1 = "d\<lparr>users := map (\<lambda>u. if ?wh u then ?st u else u) (users d)\<rparr>"
  have id: "u_id acct = userId user" and mem: "acct \<in> set (users d)"
    using filter_one_mem [OF acct] by simp_all
  have keep: "\<And>u. ?wh (?st u) = ?wh u"
    by (simp add: claimed_def)
  have f1: "filter ?wh (users ?d1) = [?st acct]"
    using filter_map_update [of ?wh ?st "users d", OF keep] acct by simp
  have ids: "userId user \<in> set (map u_id (users ?d1))"
    using mem id by (force simp: claimed_def)
  have same: "claimed (today e) acct = claimed (today e) acct\<lparr>u_id := userId user\<rparr>"
    using id by (simp add: claimed_def)
  have trig: "handle_daily_coin_claim acct (?st acct) ?d1 =
       Some (if u_last_coin_claim acct = Some (today e) then ?d1
             else ?d1\<lparr>coin_transactions := coin_transactions ?d1 @ [daily_claim_row (userId user)]\<rparr>)"
    using daily_claim_trigger [OF ids, of acct "today e"] same by simp
  have up: "update_users ?wh ?st d =
       Some (if u_last_coin_claim acct = Some (today e) then ?d1
             else ?d1\<lparr>coin_transactions := coin_transactions ?d1 @ [daily_claim_row (userId user)]\<rparr>)"
    using update_users_one [OF acct, of ?st] checks trig by simp
  show ?thesis
    using auth acct other_day f1
    by (simp add: post_api_claim_daily_coins_def up claimed_def)
qed


lemma claim_daily_already:
  assumes auth: "authenticateToken e token = Inr user"
    and acct: "filter (\<lambda>u. u_id u = userId user) (users d) = acct # others"
    and driver: "pg_date e = JSString"
  shows "(fst (post_api_claim_daily_coins e token d)
            = Response 400 (Error ''Already claimed coins today''))
           = (u_last_coin_claim acct = Some (today e))"
    and "u_last_coin_claim acct = Some (today e) \<Longrightarrow>
           post_api_claim_daily_coins e token d
             = (Response 400 (Error ''Already claimed coins today''), d)"
  using auth acct driver
  by (auto simp: post_api_claim_daily_coins_def json_def split: option.splits list.splits)

text \<open>
  The comparison of the handler is \<^verbatim>\<open>last_coin_claim === today\<close>, with a string on the
  right. It can only hold when the driver hands the \<^verbatim>\<open>DATE\<close> column over as a string.
  With a \<^verbatim>\<open>Date\<close> object on the left the comparison never holds, and no claim is
  refused.
\<close>

lemma claim_daily_date_object:
  assumes auth: "authenticateToken e token = Inr user"
    and driver: "pg_date e = JSDate"
  shows "fst (post_api_claim_daily_coins e token d)
           \<noteq> Response 400 (Error ''Already claimed coins today'')"
  using auth driver
  by (auto simp: post_api_claim_daily_coins_def json_def split: option.splits list.splits)

text \<open>
  With a driver that hands a \<^verbatim>\<open>DATE\<close> over as its text \<^verbatim>\<open>YYYY-MM-DD\<close> the handler does
  what it is written for. The account is the one row the token of the request names. Then
  the claim is refused with \<^verbatim>\<open>Already claimed coins today\<close> if and only if
  \<^verbatim>\<open>last_coin_claim\<close> of the account is the current date, and a refused claim leaves the
  database as it was. An account with 0 coins that has never claimed (and whose name and
  email pass the CHECK constraints of the table) gets the answer 10, holds 10 coins and has
  \<^verbatim>\<open>last_coin_claim\<close> set to the current date; a second claim on the same date, at
  whatever time, is refused; a claim on another date is answered with 20 and leaves 20
  coins.
\<close>

lemma daily_claim_with_text_dates:
  assumes auth: "authenticateToken e token = Inr user"
    and acct: "filter (\<lambda>u. u_id u = userId user) (users d) = [acct]"
    and driver: "pg_date e = JSString"
  shows "((fst (post_api_claim_daily_coins e token d)
             = Response 400 (Error ''Already claimed coins today''))
            = (u_last_coin_claim acct = Some (today e)))
     \<and> (u_last_coin_claim acct = Some (today e) \<longrightarrow>
          snd (post_api_claim_daily_coins e token d) = d)
     \<and> (u_coins acct = 0 \<and> u_last_coin_claim acct = None
          \<and> valid_username (u_username acct) \<and> valid_email (u_email acct)
          \<and> authenticateToken e2 token = Inr user \<and> pg_date e2 = JSString
          \<and> today e2 = today e
          \<and> authenticateToken e3 token = Inr user \<and> pg_date e3 = JSString
          \<and> today e3 \<noteq> today e \<longrightarrow>
          fst (post_api_claim_daily_coins e token d)
            = Response 200 (Coins 10 ''10 coins claimed successfully'')
          \<and> balance (snd (post_api_claim_daily_coins e token d)) (userId user) = [10]
          \<and> map u_last_coin_claim (filter (\<lambda>u. u_id u = userId user)
                (users (snd (post_api_claim_daily_coins e token d)))) = [Some (today e)]
          \<and> post_api_claim_daily_coins e2 token (snd (post_api_claim_daily_coins e token d))
              = (Response 400 (Error ''Already claimed coins today''),
                 snd (post_api_claim_daily_coins e token d))
          \<and> fst (post_api_claim_daily_coins e3 token (snd (post_api_claim_daily_coins e token d)))
              = Response 200 (Coins 20 ''10 coins claimed successfully'')
          \<and> balance (snd (post_api_claim_daily_coins e3 token
                (snd (post_api_claim_daily_coins e token d)))) (userId user) = [20])"
proof (intro conjI impI)
  show "(fst (post_api_claim_daily_coins e token d)
             = Response 400 (Error ''Already claimed coins today''))
            = (u_last_coin_claim acct = Some (today e))"
    using claim_daily_already(1) [OF auth acct driver] .
next
  assume "u_last_coin_claim acct = Some (today e)"
  then show "snd (post_api_claim_daily_coins e token d) = d"
    using claim_daily_already(2) [OF auth acct driver] by simp
next
  assume fresh: "u_coins acct = 0 \<and> u_last_coin_claim acct = None
          \<and> valid_username (u_username acct) \<and> valid_email (u_email acct)
          \<and> authenticateToken e2 token = Inr user \<and> pg_date e2 = JSString
          \<and> today e2 = today e
          \<and> authenticateToken e3 token = Inr user \<and> pg_date e3 = JSString
          \<and> today e3 \<noteq> today e"
  then have zero: "u_coins acct = 0" and never: "u_last_coin_claim acct = None"
    and names: "valid_username (u_username acct)" "valid_email (u_email acct)"
    and auth2: "authenticateToken e2 token = Inr user" and driver2: "pg_date e2 = JSString"
    and day2: "today e2 = today e"
    and auth3: "authenticateToken e3 token = Inr user" and driver3: "pg_date e3 = JSString"
    and day3: "today e3 \<noteq> today e"
    by simp_all
  let ?wh = "\<lambda>u. u_id u = userId user"
  let ?acct1 = "claimed (today e) acct"
  let ?d1 = "d\<lparr>users := map (\<lambda>u. if ?wh u then claimed (today e) u else u) (users d),
        coin_transactions := coin_transactions d @ [daily_claim_row (userId user)]\<rparr>"
  let ?d3 = "?d1\<lparr>users := map (\<lambda>u. if ?wh u then claimed (today e3) u else u) (users ?d1),
        coin_transactions := coin_transactions ?d1 @ [daily_claim_row (userId user)]\<rparr>"
  have c1: "users_checks ?acct1"
    using zero names by (simp add: users_checks_def claimed_def int4_def)
  have o1: "\<not> strict_eq_string
          (case u_last_coin_claim acct of None \<Rightarrow> JSNull | Some day \<Rightarrow> pg_date e day) (today e)"
    by (simp add: never)
  have first: "post_api_claim_daily_coins e token d
      = (json (Coins 10 ''10 coins claimed successfully''), ?d1)"
    using claim_daily_ok [OF auth acct o1 c1] by (simp add: zero never)
  have keep: "\<And>u. ?wh (claimed (today e) u) = ?wh u"
    by (simp add: claimed_def)
  have acct1: "filter ?wh (users ?d1) = [?acct1]"
    using filter_map_update [of ?wh "claimed (today e)" "users d", OF keep] acct by simp
  have last1: "u_last_coin_claim ?acct1 = Some (today e2)"
    by (simp add: claimed_def day2)
  have second: "post_api_claim_daily_coins e2 token ?d1
      = (Response 400 (Error ''Already claimed coins today''), ?d1)"
    using auth2 acct1 driver2 last1 by (rule claim_daily_already(2))
  have c3: "users_checks (claimed (today e3) ?acct1)"
    using zero names by (simp add: users_checks_def claimed_def int4_def)
  have o3: "\<not> strict_eq_string
          (case u_last_coin_claim ?acct1 of None \<Rightarrow> JSNull | Some day \<Rightarrow> pg_date e3 day)
          (today e3)"
    using day3 by (simp add: claimed_def driver3)
  have coins1: "u_coins ?acct1 + 10 = 20" and last3: "u_last_coin_claim ?acct1 \<noteq> Some (today e3)"
    using zero day3 by (simp_all add: claimed_def)
  have third: "post_api_claim_daily_coins e3 token ?d1
      = (json (Coins 20 ''10 coins claimed successfully''), ?d3)"
    using claim_daily_ok [OF auth3 acct1 o3 c3] coins1 last3 by simp
  have keep3: "\<And>u. ?wh (claimed (today e3) u) = ?wh u"
    by (simp add: claimed_def)
  have acct3: "filter ?wh (users ?d3) = [claimed (today e3) ?acct1]"
    using filter_map_update [of ?wh "claimed (today e3)" "users ?d1", OF keep3] acct1 by simp
  show "fst (post_api_claim_daily_coins e token d)
            = Response 200 (Coins 10 ''10 coins claimed successfully'')"
    by (simp add: first json_def)
  show "balance (snd (post_api_claim_daily_coins e token d)) (userId user) = [10]"
    unfolding first balance_def snd_conv acct1 by (simp add: claimed_def zero)
  show "map u_last_coin_claim (filter (\<lambda>u. u_id u = userId user)
                (users (snd (post_api_claim_daily_coins e token d)))) = [Some (today e)]"
    unfolding first snd_conv acct1 by (simp add: claimed_def)
  show "post_api_claim_daily_coins e2 token (snd (post_api_claim_daily_coins e token d))
              = (Response 400 (Error ''Already claimed coins today''),
                 snd (post_api_claim_daily_coins e token d))"
    unfolding first snd_conv by (rule second)
  show "fst (post_api_claim_daily_coins e3 token (snd (post_api_claim_daily_coins e token d)))
              = Response 200 (Coins 20 ''10 coins claimed successfully'')"
    unfolding first snd_conv third by (simp add: json_def)
  show "balance (snd (post_api_claim_daily_coins e3 token
                (snd (post_api_claim_daily_coins e token d)))) (userId user) = [20]"
    unfolding first snd_conv third balance_def acct3 by (simp add: claimed_def zero)
qed


lemma daily_claim_with_text_dates_example:
  "authenticateToken (on_day_text ''2024-03-01'') (Some token_A) = Inr token_A
   \<and> filter (\<lambda>u. u_id u = userId token_A) (users db_A) = [row_A]
   \<and> pg_date (on_day_text ''2024-03-01'') = JSString
   \<and> u_coins row_A = 0 \<and> u_last_coin_claim row_A = None
   \<and> today ((on_day_text ''2024-03-01'')\<lparr>clock := 5000\<rparr>) = today (on_day_text ''2024-03-01'')
   \<and> today (on_day_text ''2024-03-02'') \<noteq> today (on_day_text ''2024-03-01'')
   \<and> fst (post_api_claim_daily_coins (on_day_text ''2024-03-01'') (Some token_A) db_A)
       = Response 200 (Coins 10 ''10 coins claimed successfully'')
   \<and> balance (snd (post_api_claim_daily_coins (on_day_text ''2024-03-01'') (Some token_A) db_A)) 1
       = [10]
   \<and> fst (post_api_claim_daily_coins ((on_day_text ''2024-03-01'')\<lparr>clock := 5000\<rparr>) (Some token_A)
         (snd (post_api_claim_daily_coins (on_day_text ''2024-03-01'') (Some token_A) db_A)))
       = Response 400 (Error ''Already claimed coins today'')
   \<and> fst (post_api_claim_daily_coins (on_day_text ''2024-03-02'') (Some token_A)
         (snd (post_api_claim_daily_coins (on_day_text ''2024-03-01'') (Some token_A) db_A)))
       = Response 200 (Coins 20 ''10 coins claimed successfully'')"
proof -
  have a: "authenticateToken (on_day_text ''2024-03-01'') (Some token_A) = Inr token_A"
    by (simp add: scenario_defs handler_defs)
  have f: "filter (\<lambda>u. u_id u = userId token_A) (users db_A) = [row_A]"
    by (simp add: db_A_eq scenario_defs handler_defs)
  have p: "pg_date (on_day_text ''2024-03-01'') = JSString"
    by (simp add: scenario_defs)
  have fresh: "u_coins row_A = 0" "u_last_coin_claim row_A = None"
    "valid_username (u_username row_A)" "valid_email (u_email row_A)"
    by (simp_all add: row_A_def check_defs)
  have a2: "authenticateToken ((on_day_text ''2024-03-01'')\<lparr>clock := 5000\<rparr>) (Some token_A) = Inr token_A"
    "pg_date ((on_day_text ''2024-03-01'')\<lparr>clock := 5000\<rparr>) = JSString"
    "today ((on_day_text ''2024-03-01'')\<lparr>clock := 5000\<rparr>) = today (on_day_text ''2024-03-01'')"
    by (simp_all add: scenario_defs handler_defs)
  have a3: "authenticateToken (on_day_text ''2024-03-02'') (Some token_A) = Inr token_A"
    "pg_date (on_day_text ''2024-03-02'') = JSString"
    "today (on_day_text ''2024-03-02'') \<noteq> today (on_day_text ''2024-03-01'')"
    by (simp_all add: scenario_defs handler_defs)
  have u: "userId token_A = 1"
    by (simp add: token_A_def jwt_sign_def)
  show ?thesis
    using daily_claim_with_text_dates [OF a f p,
        where ?e2.0 = "(on_day_text ''2024-03-01'')\<lparr>clock := 5000\<rparr>" and ?e3.0 = "on_day_text ''2024-03-02''"]
      a f p fresh a2 a3
    by (simp add: u)
qed

lemma claim_A:
  "post_api_claim_daily_coins (on_day ''2024-03-01'') (Some token_A) db_A =
     (json (Coins 10 ''10 coins claimed successfully''),
      empty_db\<lparr>users := [row_A\<lparr>u_coins := 10, u_last_coin_claim := Some ''2024-03-01''\<rparr>],
        coin_transactions := [daily_claim_row 1]\<rparr>)"
  by (simp add: db_A_eq scenario_defs handler_defs sql_defs check_defs)

lemma claim_A_again:
  "post_api_claim_daily_coins ((on_day ''2024-03-01'')\<lparr>clock := 5000\<rparr>) (Some token_A)
       db_A_claimed =
     (json (Coins 20 ''10 coins claimed successfully''),
      empty_db\<lparr>users := [row_A\<lparr>u_coins := 20, u_last_coin_claim := Some ''2024-03-01''\<rparr>],
        coin_transactions := [daily_claim_row 1]\<rparr>)"
  by (simp add: db_A_claimed_def claim_A)
     (simp add: scenario_defs handler_defs sql_defs check_defs)

text \<open>
  C3, run on the code, with the driver handing \<^verbatim>\<open>last_coin_claim\<close> over as a \<^verbatim>\<open>Date\<close>
  object. Account \<open>A\<close> holds 0 coins and claims: the answer is 10, the balance is 10 and
  \<^verbatim>\<open>last_coin_claim\<close> is the current date. A second claim on the same date is not
  refused: it is answered with 20 and the balance is 20, while the ledger holds the one
  row of the first claim.
\<close>

theorem same_day_claim_not_refused:
  "balance db_A 1 = [0]
   \<and> fst (post_api_claim_daily_coins (on_day ''2024-03-01'') (Some token_A) db_A)
       = Response 200 (Coins 10 ''10 coins claimed successfully'')
   \<and> balance db_A_claimed 1 = [10]
   \<and> map u_last_coin_claim (users db_A_claimed) = [Some ''2024-03-01'']
   \<and> today ((on_day ''2024-03-01'')\<lparr>clock := 5000\<rparr>) = ''2024-03-01''
   \<and> fst (post_api_claim_daily_coins ((on_day ''2024-03-01'')\<lparr>clock := 5000\<rparr>) (Some token_A)
          db_A_claimed)
       = Response 200 (Coins 20 ''10 coins claimed successfully'')
   \<and> balance db_A_claimed_twice 1 = [20]
   \<and> ledger_sum db_A_claimed_twice 1 = 10"
  by (simp add: db_A_claimed_twice_def claim_A_again)
     (simp add: db_A_claimed_def claim_A json_def,
      simp add: db_A_eq balance_def ledger_sum_def ledger_def scenario_defs)

subsection \<open>Balances stay non-negative\<close>

lemma kept_refl: "kept_or_nonneg d d"
  by (simp add: kept_or_nonneg_def list_all_iff)

lemma kept_same_users: "users d' = users d \<Longrightarrow> kept_or_nonneg d d'"
  by (simp add: kept_or_nonneg_def list_all_iff)

lemma kept_trans:
  "kept_or_nonneg d d1 \<Longrightarrow> kept_or_nonneg d1 d2 \<Longrightarrow> kept_or_nonneg d d2"
  by (auto simp: kept_or_nonneg_def list_all_iff)

lemma kept_update:
  assumes "update_users wh st d = Some d'"
  shows "kept_or_nonneg d d'"
proof -
  have "list_all (\<lambda>u. users_checks (st u)) (filter wh (users d))"
    using assms by (rule update_users_frame(5))
  then have "\<And>u. u \<in> set (users d) \<Longrightarrow> wh u \<Longrightarrow> 0 \<le> u_coins (st u)"
    by (simp add: list_all_iff users_checks_def)
  then show ?thesis
    by (auto simp: kept_or_nonneg_def list_all_iff update_users_frame(1) [OF assms])
qed

lemma insert_coin_transaction_users:
  "insert_coin_transaction t d = Some d' \<Longrightarrow> users d' = users d"
  by (auto simp: insert_coin_transaction_def split: option.splits if_splits)

lemma insert_referral_users: "insert_referral r d = Some d' \<Longrightarrow> users d' = users d"
  by (auto simp: insert_referral_def split: if_splits)

lemma insert_bot_users: "insert_bot jsonb b d = Some (NEW, d') \<Longrightarrow> users d' = users d"
  by (auto simp: insert_bot_def split: if_splits option.splits)

lemma insert_community_message_users:
  "insert_community_message m d = Some d' \<Longrightarrow> users d' = users d"
  by (auto simp: insert_community_message_def split: if_splits)

lemma kept_referral_bonus:
  assumes "handle_referral_bonus NEW d = Some d'"
  shows "kept_or_nonneg d d'"
proof (cases "u_referrer_id NEW")
  case None
  then show ?thesis using assms by (simp add: handle_referral_bonus_def kept_refl)
next
  case (Some referrer)
  from assms obtain d1 d2 d3 d4 where
    s1: "update_users (\<lambda>u. u_id u = referrer) (add_coins 100) d = Some d1"
    and s2: "insert_referral
               \<lparr>r_referrer_id = referrer, r_referred_id = u_id NEW, r_bonus_given = True\<rparr> d1
             = Some d2"
    and s3: "insert_coin_transaction
               \<lparr>ct_user_id = referrer, ct_amount = 100, ct_type = ''referral_bonus'',
                ct_description = Some (''Referral bonus for new user: '' @ u_username NEW),
                ct_related_bot_id = None\<rparr> d2 = Some d3"
    and s4: "update_users (\<lambda>u. u_id u = u_id NEW) (add_coins 50) d3 = Some d4"
    and s5: "insert_coin_transaction
               \<lparr>ct_user_id = u_id NEW, ct_amount = 50, ct_type = ''referral_bonus'',
                ct_description = Some ''Welcome bonus from referral'',
                ct_related_bot_id = None\<rparr> d4 = Some d'"
    by (auto simp: handle_referral_bonus_def Some bind_eq_Some_conv)
  have "kept_or_nonneg d d1" using s1 by (rule kept_update)
  moreover have "kept_or_nonneg d1 d2" using s2 by (intro kept_same_users insert_referral_users)
  moreover have "kept_or_nonneg d2 d3"
    using s3 by (intro kept_same_users insert_coin_transaction_users)
  moreover have "kept_or_nonneg d3 d4" using s4 by (rule kept_update)
  moreover have "kept_or_nonneg d4 d'"
    using s5 by (intro kept_same_users insert_coin_transaction_users)
  ultimately show ?thesis by (blast intro: kept_trans)
qed

lemma kept_insert_user:
  assumes "insert_user row d = Some (NEW, d')"
  shows "kept_or_nonneg d d'"
proof -
  from assms have checks: "users_checks NEW"
    and trig: "handle_referral_bonus NEW (d\<lparr>users := users d @ [NEW]\<rparr>) = Some d'"
    by (auto simp: insert_user_def split: option.splits if_splits)
  have "kept_or_nonneg d (d\<lparr>users := users d @ [NEW]\<rparr>)"
    using checks by (simp add: kept_or_nonneg_def list_all_iff users_checks_def)
  then show ?thesis using kept_referral_bonus [OF trig] by (rule kept_trans)
qed

lemma kept_register: "kept_or_nonneg d (snd (post_api_register e req d))"
  by (auto simp: post_api_register_def Let_def kept_refl split: option.splits prod.splits
      intro: kept_insert_user kept_update kept_trans)

lemma kept_claim: "kept_or_nonneg d (snd (post_api_claim_daily_coins e token d))"
  by (auto simp: post_api_claim_daily_coins_def kept_refl
      split: sum.splits list.splits option.splits intro: kept_update)

lemma kept_bots: "kept_or_nonneg d (snd (post_api_bots e token req d))"
  by (auto simp: post_api_bots_def Let_def kept_refl
      split: sum.splits list.splits option.splits prod.splits
      intro: kept_update kept_trans kept_same_users insert_bot_users)

lemma kept_balance:
  assumes "kept_or_nonneg d d'" and "list_all (\<lambda>c. 0 \<le> c) (balance d a)"
  shows "list_all (\<lambda>c. 0 \<le> c) (balance d' a)"
  using assms by (auto simp: kept_or_nonneg_def balance_def list_all_iff)

text \<open>
  C6. Whatever the request and whether it succeeds or fails, registration, the daily claim
  and the deployment request leave every balance of an account non-negative if it was
  non-negative before (an account that did not exist before has a non-negative balance
  afterwards); so does the referral trigger \<^verbatim>\<open>handle_referral_bonus\<close> whenever it
  completes. The balance of an account is the \<^verbatim>\<open>coins\<close> column of its rows.
\<close>

theorem coins_never_negative:
  assumes "list_all (\<lambda>c. 0 \<le> c) (balance d a)"
  shows "list_all (\<lambda>c. 0 \<le> c) (balance (snd (post_api_register e req d)) a)
     \<and> list_all (\<lambda>c. 0 \<le> c) (balance (snd (post_api_claim_daily_coins e token d)) a)
     \<and> list_all (\<lambda>c. 0 \<le> c) (balance (snd (post_api_bots e token spec d)) a)
     \<and> (case handle_referral_bonus NEW d of
          None \<Rightarrow> True
        | Some d' \<Rightarrow> list_all (\<lambda>c. 0 \<le> c) (balance d' a))"
proof (intro conjI)
  show "list_all (\<lambda>c. 0 \<le> c) (balance (snd (post_api_register e req d)) a)"
    using kept_register assms by (rule kept_balance)
  show "list_all (\<lambda>c. 0 \<le> c) (balance (snd (post_api_claim_daily_coins e token d)) a)"
    using kept_claim assms by (rule kept_balance)
  show "list_all (\<lambda>c. 0 \<le> c) (balance (snd (post_api_bots e token spec d)) a)"
    using kept_bots assms by (rule kept_balance)
  show "case handle_referral_bonus NEW d of
          None \<Rightarrow> True
        | Some d' \<Rightarrow> list_all (\<lambda>c. 0 \<le> c) (balance d' a)"
  proof (cases "handle_referral_bonus NEW d")
    case None
    then show ?thesis by simp
  next
    case (Some d')
    then have "kept_or_nonneg d d'" by (rule kept_referral_bonus)
    then have "list_all (\<lambda>c. 0 \<le> c) (balance d' a)" using assms by (rule kept_balance)
    then show ?thesis by (simp add: Some)
  qed
qed


theorem coins_never_negative_witness:
  "list_all (\<lambda>c. 0 \<le> c) (balance db_A 1)
   \<and> balance (snd (post_api_register env_B account_B db_A)) 1 = [200]
   \<and> list_all (\<lambda>c. 0 \<le> c) (balance (snd (post_api_register env_B account_B db_A)) 1)
   \<and> list_all (\<lambda>c. 0 \<le> c)
        (balance (snd (post_api_claim_daily_coins test_env (Some token_A) db_A)) 1)
   \<and> list_all (\<lambda>c. 0 \<le> c)
        (balance (snd (post_api_bots test_env (Some token_A) bot_spec db_A)) 1)
   \<and> list_all (\<lambda>c. 0 \<le> c) (balance (db_A\<lparr>users := users db_A @ [row_B]\<rparr>) 1)
   \<and> (case handle_referral_bonus row_B (db_A\<lparr>users := users db_A @ [row_B]\<rparr>) of
        None \<Rightarrow> False
      | Some d' \<Rightarrow> balance d' 1 = [100] \<and> list_all (\<lambda>c. 0 \<le> c) (balance d' 1))"
proof -
  have b: "list_all (\<lambda>c. 0 \<le> c) (balance db_A 1)"
    by (simp add: db_A_eq balance_def scenario_defs)
  have b': "list_all (\<lambda>c. 0 \<le> c) (balance (db_A\<lparr>users := users db_A @ [row_B]\<rparr>) 1)"
    by (simp add: db_A_eq balance_def scenario_defs)
  have r: "balance (snd (post_api_register env_B account_B db_A)) 1 = [200]"
    by (simp add: db_A_eq balance_def scenario_defs handler_defs sql_defs check_defs)
  have t: "case handle_referral_bonus row_B (db_A\<lparr>users := users db_A @ [row_B]\<rparr>) of
        None \<Rightarrow> False
      | Some d' \<Rightarrow> balance d' 1 = [100]"
    by (simp add: db_A_eq balance_def scenario_defs sql_defs check_defs)
  show ?thesis
    using b b' r t
      coins_never_negative [OF b, where e = env_B and req = account_B]
      coins_never_negative [OF b, where e = test_env and token = "Some token_A"
        and spec = bot_spec]
      coins_never_negative [OF b', where NEW = row_B]
    by (auto split: option.splits)
qed

subsection \<open>The ledger\<close>

lemma register_B:
  "post_api_register env_B account_B db_A =
     (json (Session token_B (UserJson 2 ''B'' ''b@example.com'' 50 None)),
      empty_db\<lparr>users := [row_A\<lparr>u_coins := 200\<rparr>, row_B\<lparr>u_coins := 100\<rparr>],
        coin_transactions := referral_bonus_rows,
        referrals := [\<lparr>r_referrer_id = 1, r_referred_id = 2, r_bonus_given = True\<rparr>]\<rparr>)"
  by (simp add: db_A_eq scenario_defs handler_defs sql_defs check_defs)

lemma deploy_A:
  "post_api_bots (on_day ''2024-03-06'') (Some token_A) bot_spec db_A_50 =
     (json (Bot ''Bot deployment started'' pending_bot),
      empty_db\<lparr>
        users := [row_A\<lparr>u_coins := 0, u_last_coin_claim := Some ''2024-03-05''\<rparr>],
        bots := [pending_bot],
        coin_transactions := map daily_claim_row [1, 1, 1, 1, 1]\<rparr>)"
  by (simp add: db_A_50_eq scenario_defs handler_defs sql_defs check_defs Let_def)

text \<open>
  C2, run on the code. Account \<open>A\<close> holds the referral code \<^verbatim>\<open>ALICE1X\<close> and 0 coins;
  account \<open>B\<close> registers with that code. The response shows 50 coins for \<open>B\<close>, but the
  stored balance of \<open>B\<close> is 100 (the 50 of the inserted row and the 50 of the trigger), and
  the balance of \<open>A\<close> has grown by 200 (the 100 of the trigger and the 100 of the
  handler's own \<^verbatim>\<open>UPDATE\<close>). One \<^verbatim>\<open>referrals\<close> row links \<open>A\<close> to \<open>B\<close>.
\<close>

theorem referral_registration_pays_twice:
  "balance db_A 1 = [0]
   \<and> fst (post_api_register env_B account_B db_A)
       = Response 200 (Session token_B (UserJson 2 ''B'' ''b@example.com'' 50 None))
   \<and> balance db_AB 2 = [100]
   \<and> balance db_AB 1 = [200]
   \<and> referrals db_AB = [\<lparr>r_referrer_id = 1, r_referred_id = 2, r_bonus_given = True\<rparr>]"
  by (simp add: db_AB_def register_B json_def) (simp add: db_A_eq balance_def scenario_defs)

text \<open>
  C1, run on the code. After the registration of \<open>A\<close> the balance and the ledger agree
  (both 0). After the registration of \<open>B\<close> with the code of \<open>A\<close>, \<open>A\<close> holds 200 coins
  with 100 in the ledger and \<open>B\<close> holds 100 coins with 50 in the ledger. After five daily
  claims \<open>A\<close> (alone in the database) holds 50 coins with 50 in the ledger; after the
  deployment \<open>A\<close> holds 0 coins and the ledger still sums to 50.
\<close>

theorem balance_differs_from_ledger:
  "balance db_A 1 = [0] \<and> ledger_sum db_A 1 = 0
   \<and> balance db_AB 1 = [200] \<and> ledger_sum db_AB 1 = 100
   \<and> balance db_AB 2 = [100] \<and> ledger_sum db_AB 2 = 50
   \<and> balance db_A_50 1 = [50] \<and> ledger_sum db_A_50 1 = 50
   \<and> balance db_A_deployed 1 = [0] \<and> ledger_sum db_A_deployed 1 = 50"
  by (simp add: db_AB_def register_B db_A_deployed_def deploy_A)
     (simp add: db_A_eq db_A_50_eq balance_def ledger_sum_def ledger_def scenario_defs)

text \<open>The deployment request never writes to \<^verbatim>\<open>coin_transactions\<close>.\<close>

lemma deployment_writes_no_ledger_row:
  "coin_transactions (snd (post_api_bots e token req d)) = coin_transactions d"
proof -
  have keep: "\<And>n u. u_last_coin_claim (add_coins n u) = u_last_coin_claim u"
    by (simp add: add_coins_def)
  show ?thesis
    by (simp add: post_api_bots_def Let_def update_users_same_day keep insert_bot_def
        split: sum.splits list.splits option.splits)
qed

text \<open>
  C4, run on the code. Account \<open>A\<close> holds exactly 50 coins and requests a deployment with
  a repository on GitHub. The request succeeds, the balance becomes 0 and one bot with
  status \<^verbatim>\<open>pending\<close> is created, but the ledger is left as it was: it holds no row of
  type \<^verbatim>\<open>bot_deployment\<close> and no negative amount. The same holds for every deployment
  request: \<^verbatim>\<open>coin_transactions\<close> is never written.
\<close>

theorem deployment_debit_not_in_ledger:
  "balance db_A_50 1 = [50]
   \<and> post_api_bots (on_day ''2024-03-06'') (Some token_A) bot_spec db_A_50
       = (Response 200 (Bot ''Bot deployment started'' pending_bot), db_A_deployed)
   \<and> balance db_A_deployed 1 = [0]
   \<and> bots db_A_deployed = [pending_bot] \<and> b_status pending_bot = ''pending''
   \<and> coin_transactions db_A_deployed = coin_transactions db_A_50
   \<and> filter (\<lambda>t. ct_type t = ''bot_deployment'' \<or> ct_amount t < 0)
        (coin_transactions db_A_deployed) = []
   \<and> coin_transactions (snd (post_api_bots e token req d)) = coin_transactions d"
  by (simp add: db_A_deployed_def deploy_A deployment_writes_no_ledger_row)
     (simp add: db_A_50_eq balance_def scenario_defs json_def)

subsection \<open>The state after a registration\<close>

lemma add_coins_keeps:
  "u_id (add_coins n u) = u_id u" "u_email (add_coins n u) = u_email u"
  "u_username (add_coins n u) = u_username u"
  "u_is_verified (add_coins n u) = u_is_verified u"
  "u_last_coin_claim (add_coins n u) = u_last_coin_claim u"
  "u_coins (add_coins n u) = u_coins u + n"
  by (simp_all add: add_coins_def)

lemma update_coins_eq:
  "update_users wh (add_coins n) d =
     (if list_all (\<lambda>u. users_checks (add_coins n u)) (filter wh (users d))
      then Some (d\<lparr>users := map (\<lambda>u. if wh u then add_coins n u else u) (users d)\<rparr>)
      else None)"
  by (rule update_users_same_day) (simp add: add_coins_def)

lemma map_other_ids:
  assumes "k \<notin> set (map u_id xs)"
  shows "map (\<lambda>u. if u_id u = k then f u else u) xs = xs"
  using assms by (induction xs) auto

lemma handle_referral_bonus_users:
  assumes trig: "handle_referral_bonus NEW (d\<lparr>users := users d @ [NEW]\<rparr>) = Some d'"
    and ref: "u_referrer_id NEW = Some r"
    and new: "u_id NEW \<notin> set (map u_id (users d))"
    and old: "r \<in> set (map u_id (users d))"
  shows "users d' = map (\<lambda>u. if u_id u = r then add_coins 100 u else u) (users d)
                      @ [add_coins 50 NEW]"
    and "bots d' = bots d" and "community_messages d' = community_messages d"
proof -
  let ?f = "\<lambda>u. if u_id u = r then add_coins 100 u else u"
  from trig obtain d1 d2 d3 d4 where
    s1: "update_users (\<lambda>u. u_id u = r) (add_coins 100) (d\<lparr>users := users d @ [NEW]\<rparr>) = Some d1"
    and s2: "insert_referral
               \<lparr>r_referrer_id = r, r_referred_id = u_id NEW, r_bonus_given = True\<rparr> d1
             = Some d2"
    and s3: "insert_coin_transaction
               \<lparr>ct_user_id = r, ct_amount = 100, ct_type = ''referral_bonus'',
                ct_description = Some (''Referral bonus for new user: '' @ u_username NEW),
                ct_related_bot_id = None\<rparr> d2 = Some d3"
    and s4: "update_users (\<lambda>u. u_id u = u_id NEW) (add_coins 50) d3 = Some d4"
    and s5: "insert_coin_transaction
               \<lparr>ct_user_id = u_id NEW, ct_amount = 50, ct_type = ''referral_bonus'',
                ct_description = Some ''Welcome bonus from referral'',
                ct_related_bot_id = None\<rparr> d4 = Some d'"
    by (auto simp: handle_referral_bonus_def ref bind_eq_Some_conv)
  have ne: "u_id NEW \<noteq> r" using new old by auto
  have u1: "users d1 = map ?f (users d) @ [NEW]"
    using update_users_frame(1) [OF s1] ne by simp
  have u3: "users d3 = users d1"
    using s2 s3 by (auto simp: insert_referral_def insert_coin_transaction_eq split: if_splits)
  have "map u_id (map ?f (users d)) = map u_id (users d)"
    by (simp add: add_coins_keeps if_distrib [of u_id] cong: if_cong)
  then have ids: "u_id NEW \<notin> set (map u_id (map ?f (users d)))"
    using new by simp
  have u4: "users d4 = map ?f (users d) @ [add_coins 50 NEW]"
    using update_users_frame(1) [OF s4] map_other_ids [OF ids, of "add_coins 50"]
    by (simp add: u3 u1)
  show "users d' = map ?f (users d) @ [add_coins 50 NEW]"
    using s5 u4 by (auto simp: insert_coin_transaction_eq split: if_splits)
  have "bots d1 = bots d" "community_messages d1 = community_messages d"
    using update_users_frame(2,4) [OF s1] by simp_all
  moreover have "bots d3 = bots d1" "community_messages d3 = community_messages d1"
    using s2 s3 by (auto simp: insert_referral_def insert_coin_transaction_eq split: if_splits)
  moreover have "bots d4 = bots d3" "community_messages d4 = community_messages d3"
    using update_users_frame(2,4) [OF s4] by simp_all
  moreover have "bots d' = bots d4" "community_messages d' = community_messages d4"
    using s5 by (auto simp: insert_coin_transaction_eq split: if_splits)
  ultimately show "bots d' = bots d" and "community_messages d' = community_messages d"
    by simp_all
qed


lemma users_varchars_keeps:
  assumes "users_varchars u = Some NEW"
  shows "u_id NEW = u_id u" and "u_coins NEW = u_coins u"
    and "u_referrer_id NEW = u_referrer_id u" and "u_is_verified NEW = u_is_verified u"
    and "u_last_coin_claim NEW = u_last_coin_claim u"
  using assms by (auto simp: users_varchars_def bind_eq_Some_conv)


lemma register_steps:
  assumes reg: "post_api_register e req d = (Response 200 b, d')"
  obtains NEW d1 where
    "users_varchars (new_user e req (lookup_referrer (referralCode req) d)) = Some NEW"
    and "users_checks NEW"
    and "u_id NEW \<notin> set (map u_id (users d))"
    and "u_email NEW \<notin> set (map u_email (users d))"
    and "case u_referrer_id NEW of None \<Rightarrow> True | Some r \<Rightarrow> r \<in> set (map u_id (users d))"
    and "handle_referral_bonus NEW (d\<lparr>users := users d @ [NEW]\<rparr>) = Some d1"
    and "(case lookup_referrer (referralCode req) d of
            None \<Rightarrow> Some d1
          | Some r \<Rightarrow> update_users (\<lambda>u. u_id u = r) (add_coins 100) d1) = Some d'"
    and "b = Session (jwt_sign (u_id NEW) (u_email NEW) (JWT_SECRET e) (clock e))
               (UserJson (u_id NEW) (u_username NEW) (u_email NEW) (u_coins NEW) None)"
proof -
  let ?ref = "lookup_referrer (referralCode req) d"
  from reg obtain NEW d1 where
    ins: "insert_user (new_user e req ?ref) d = Some (NEW, d1)"
    and upd: "(case ?ref of None \<Rightarrow> Some d1
               | Some r \<Rightarrow> update_users (\<lambda>u. u_id u = r) (add_coins 100) d1) = Some d'"
    and body: "b = Session (jwt_sign (u_id NEW) (u_email NEW) (JWT_SECRET e) (clock e))
                 (UserJson (u_id NEW) (u_username NEW) (u_email NEW) (u_coins NEW) None)"
    by (auto simp: post_api_register_def Let_def json_def
        split: if_splits option.splits prod.splits)
  from ins have "users_varchars (new_user e req ?ref) = Some NEW"
    and "users_checks NEW"
    and "u_id NEW \<notin> set (map u_id (users d))"
    and "u_email NEW \<notin> set (map u_email (users d))"
    and "case u_referrer_id NEW of None \<Rightarrow> True | Some r \<Rightarrow> r \<in> set (map u_id (users d))"
    and "handle_referral_bonus NEW (d\<lparr>users := users d @ [NEW]\<rparr>) = Some d1"
    by (auto simp: insert_user_def split: option.splits if_splits)
  then show thesis using upd body by (rule that)
qed


lemma filter_map_none:
  assumes "\<And>u. u \<in> set xs \<Longrightarrow> \<not> P (g u)"
  shows "filter P (map g xs) = []"
  using assms by (induction xs) auto









subsection \<open>The referral bonus of every registration\<close>

text \<open>
  What the registration of \<open>B\<close> shows holds for every registration that succeeds with the code
  of a referrer: the new account holds 100 coins, every balance of the referrer has grown
  by 200, one \<^verbatim>\<open>referrals\<close> row is added, and the ledger has grown by 50 for the new
  account and by 100 for the referrer.
\<close>

lemma handle_referral_bonus_explicit:
  assumes "handle_referral_bonus NEW d0 = Some d'" and "u_referrer_id NEW = Some r"
  shows "d' = d0\<lparr>
      users := map (\<lambda>u. if u_id u = u_id NEW then add_coins 50 u else u)
                 (map (\<lambda>u. if u_id u = r then add_coins 100 u else u) (users d0)),
      coin_transactions := coin_transactions d0 @
        [\<lparr>ct_user_id = r, ct_amount = 100, ct_type = ''referral_bonus'',
          ct_description = Some (''Referral bonus for new user: '' @ u_username NEW),
          ct_related_bot_id = None\<rparr>,
         \<lparr>ct_user_id = u_id NEW, ct_amount = 50, ct_type = ''referral_bonus'',
          ct_description = Some ''Welcome bonus from referral'', ct_related_bot_id = None\<rparr>],
      referrals := referrals d0 @
        [\<lparr>r_referrer_id = r, r_referred_id = u_id NEW, r_bonus_given = True\<rparr>]\<rparr>"
proof -
  from assms obtain d1 d2 d3 d4 where
    s1: "update_users (\<lambda>u. u_id u = r) (add_coins 100) d0 = Some d1"
    and s2: "insert_referral
               \<lparr>r_referrer_id = r, r_referred_id = u_id NEW, r_bonus_given = True\<rparr> d1
             = Some d2"
    and s3: "insert_coin_transaction
               \<lparr>ct_user_id = r, ct_amount = 100, ct_type = ''referral_bonus'',
                ct_description = Some (''Referral bonus for new user: '' @ u_username NEW),
                ct_related_bot_id = None\<rparr> d2 = Some d3"
    and s4: "update_users (\<lambda>u. u_id u = u_id NEW) (add_coins 50) d3 = Some d4"
    and s5: "insert_coin_transaction
               \<lparr>ct_user_id = u_id NEW, ct_amount = 50, ct_type = ''referral_bonus'',
                ct_description = Some ''Welcome bonus from referral'',
                ct_related_bot_id = None\<rparr> d4 = Some d'"
    by (auto simp: handle_referral_bonus_def bind_eq_Some_conv)
  have e1: "d1 = d0\<lparr>users := map (\<lambda>u. if u_id u = r then add_coins 100 u else u) (users d0)\<rparr>"
    using s1 by (simp add: update_coins_eq split: if_splits)
  have e2: "d2 = d1\<lparr>referrals := referrals d1 @
        [\<lparr>r_referrer_id = r, r_referred_id = u_id NEW, r_bonus_given = True\<rparr>]\<rparr>"
    using s2 by (simp add: insert_referral_def split: if_splits)
  have e3: "d3 = d2\<lparr>coin_transactions := coin_transactions d2 @
        [\<lparr>ct_user_id = r, ct_amount = 100, ct_type = ''referral_bonus'',
          ct_description = Some (''Referral bonus for new user: '' @ u_username NEW),
          ct_related_bot_id = None\<rparr>]\<rparr>"
    using s3 by (simp add: insert_coin_transaction_eq split: if_splits)
  have e4: "d4 = d3\<lparr>users := map (\<lambda>u. if u_id u = u_id NEW then add_coins 50 u else u)
        (users d3)\<rparr>"
    using s4 by (simp add: update_coins_eq split: if_splits)
  have e5: "d' = d4\<lparr>coin_transactions := coin_transactions d4 @
        [\<lparr>ct_user_id = u_id NEW, ct_amount = 50, ct_type = ''referral_bonus'',
          ct_description = Some ''Welcome bonus from referral'',
          ct_related_bot_id = None\<rparr>]\<rparr>"
    using s5 by (simp add: insert_coin_transaction_eq split: if_splits)
  show ?thesis
    by (simp add: e5 e4 e3 e2 e1)
qed

lemma referral_bonus_paid_twice:
  assumes reg: "post_api_register e req d = (Response 200 b, d')"
    and ref: "lookup_referrer (referralCode req) d = Some r"
  shows "balance d' (uuid_generate_v4 e) = [100]"
    and "balance d' r = map (\<lambda>c. c + 200) (balance d r)"
    and "referrals d' = referrals d @
           [\<lparr>r_referrer_id = r, r_referred_id = uuid_generate_v4 e, r_bonus_given = True\<rparr>]"
    and "ledger_sum d' (uuid_generate_v4 e) = ledger_sum d (uuid_generate_v4 e) + 50"
    and "ledger_sum d' r = ledger_sum d r + 100"
proof -
  let ?f = "\<lambda>u. if u_id u = r then add_coins 100 u else u"
  from reg obtain NEW d1 where
    cols: "users_varchars (new_user e req (lookup_referrer (referralCode req) d)) = Some NEW"
    and "users_checks NEW"
    and new: "u_id NEW \<notin> set (map u_id (users d))"
    and "u_email NEW \<notin> set (map u_email (users d))"
    and fk0: "case u_referrer_id NEW of None \<Rightarrow> True | Some r \<Rightarrow> r \<in> set (map u_id (users d))"
    and trig: "handle_referral_bonus NEW (d\<lparr>users := users d @ [NEW]\<rparr>) = Some d1"
    and upd0: "(case lookup_referrer (referralCode req) d of
            None \<Rightarrow> Some d1
          | Some r \<Rightarrow> update_users (\<lambda>u. u_id u = r) (add_coins 100) d1) = Some d'"
    and "b = Session (jwt_sign (u_id NEW) (u_email NEW) (JWT_SECRET e) (clock e))
               (UserJson (u_id NEW) (u_username NEW) (u_email NEW) (u_coins NEW) None)"
    by (rule register_steps)
  have uid: "u_id NEW = uuid_generate_v4 e" and c0: "u_coins NEW = 50"
    and rr: "u_referrer_id NEW = Some r"
    using users_varchars_keeps(1,2,3) [OF cols] ref by (simp_all add: new_user_def)
  have fk: "r \<in> set (map u_id (users d))"
    using fk0 rr by simp
  have upd: "update_users (\<lambda>u. u_id u = r) (add_coins 100) d1 = Some d'"
    using upd0 ref by simp
  have ne: "uuid_generate_v4 e \<noteq> r" using new fk uid by auto
  note d1 = handle_referral_bonus_explicit [OF trig rr]
  have u1: "users d1 = map ?f (users d) @ [add_coins 50 NEW]"
    using handle_referral_bonus_users(1) [OF trig rr new fk] .
  let ?g = "\<lambda>u. if u_id u = r then add_coins 200 u else u"
  have ff: "map ?f (map ?f (users d)) = map ?g (users d)"
    by (simp add: add_coins_def)
  have "users d' = map ?f (map ?f (users d)) @ [add_coins 50 NEW]"
    using update_users_frame(1) [OF upd] ne by (simp add: u1 add_coins_keeps uid)
  then have u': "users d' = map ?g (users d) @ [add_coins 50 NEW]"
    by (simp only: ff)
  have tx: "coin_transactions d' = coin_transactions d1" and rf: "referrals d' = referrals d1"
    using upd update_users_frame(3) [OF upd]
    by (auto simp: update_coins_eq split: if_splits)
  have fresh: "\<And>u. u \<in> set (users d) \<Longrightarrow> u_id u \<noteq> uuid_generate_v4 e"
    using new uid by force
  have none: "filter (\<lambda>u. u_id u = uuid_generate_v4 e) (map ?g (users d)) = []"
    using ne by (intro filter_map_none) (simp add: add_coins_keeps fresh)
  have mine: "filter (\<lambda>u. u_id u = uuid_generate_v4 e) [add_coins 50 NEW] = [add_coins 50 NEW]"
    and theirs: "filter (\<lambda>u. u_id u = r) [add_coins 50 NEW] = []"
    using ne by (simp_all add: add_coins_keeps uid)
  have c: "u_coins (add_coins 50 NEW) = 100"
    by (simp add: add_coins_def c0)
  show "balance d' (uuid_generate_v4 e) = [100]"
    unfolding balance_def u' filter_append none mine by (simp add: c)
  have keep: "\<And>u. (u_id (add_coins 200 u) = r) = (u_id u = r)"
    by (simp add: add_coins_keeps)
  have hit: "filter (\<lambda>u. u_id u = r) (map ?g (users d))
      = map (add_coins 200) (filter (\<lambda>u. u_id u = r) (users d))"
    using keep by (rule filter_map_update)
  show "balance d' r = map (\<lambda>c. c + 200) (balance d r)"
    unfolding balance_def u' filter_append hit theirs by (simp add: add_coins_keeps o_def)
  show "referrals d' = referrals d @
           [\<lparr>r_referrer_id = r, r_referred_id = uuid_generate_v4 e, r_bonus_given = True\<rparr>]"
    by (simp add: rf d1 uid)
  show "ledger_sum d' (uuid_generate_v4 e) = ledger_sum d (uuid_generate_v4 e) + 50"
    using ne by (simp add: ledger_sum_def ledger_def tx d1 uid)
  show "ledger_sum d' r = ledger_sum d r + 100"
    using ne by (simp add: ledger_sum_def ledger_def tx d1 uid)
qed

end
